theory Spec2Isabelle
  imports Complex_Main "HOL-Library.Word" "HOL-Library.Multiset"
begin

section \<open>Data model of the renderer\<close>

text \<open>
  The theory embeds \<^verbatim>\<open>source/Renderer.cpp\<close>: \<^verbatim>\<open>Renderer::Render\<close>,
  \<^verbatim>\<open>Renderer::RenderPixel\<close> and \<^verbatim>\<open>Renderer::CycleLightingMode\<close>.
  The headers the file includes (\<^verbatim>\<open>Math.h\<close>, \<^verbatim>\<open>Material.h\<close>, \<^verbatim>\<open>Scene.h\<close>,
  \<^verbatim>\<open>Utils.h\<close>, \<^verbatim>\<open>Renderer.h\<close>) are not embedded. The vector and colour
  arithmetic they declare is modelled from the specification; the scene queries,
  the light utilities, the material's \<^verbatim>\<open>Shade\<close> and \<^verbatim>\<open>SDL_MapRGB\<close> are parameters of
  the model, so every theorem holds for all of their implementations.

  A C++ \<^verbatim>\<open>float\<close> is modelled by a \<^typ>\<open>real\<close>: rounding, infinities and NaN are
  outside the model. Undefined behaviour of the C++ (an integer division by zero, an
  index outside a vector, a float that does not fit the byte it is cast to) is the
  result \<^term>\<open>None\<close>.
\<close>

subsection \<open>Lighting mode\<close>

datatype LightingMode = ObservedArea | Radiance | BRDF | Combined

subsection \<open>Vectors, colours, rays and hit records\<close>

record Vector3 =
  x :: real
  y :: real
  z :: real

record ColorRGB =
  r :: real
  g :: real
  b :: real

text \<open>
  The fields \<^verbatim>\<open>min\<close> and \<^verbatim>\<open>max\<close> of the C++ \<^verbatim>\<open>Ray\<close> are \<open>min_bound\<close> and
  \<open>max_bound\<close> here, since \<open>min\<close> and \<open>max\<close> are constants of HOL.
\<close>

record Ray =
  origin :: Vector3
  direction :: Vector3
  min_bound :: real
  max_bound :: real

record HitRecord =
  origin :: Vector3
  normal :: Vector3
  t :: real
  didHit :: bool
  materialIndex :: nat

record Camera =
  origin :: Vector3
  fovAngle :: real
  cameraToWorld :: "Vector3 \<Rightarrow> Vector3"
    \<comment> \<open>the matrix, given by its \<^verbatim>\<open>TransformVector\<close>\<close>

subsection \<open>Vector and colour arithmetic\<close>

text \<open>
  Modelled from the spec: the operators of \<^verbatim>\<open>Vector3\<close> (\<^verbatim>\<open>Math.h\<close>), which the
  specification lists as dot product, normalization in both forms (in place, returning
  the length, and as a normalized copy), addition and scaling.
\<close>

definition Vector3_plus :: "Vector3 \<Rightarrow> Vector3 \<Rightarrow> Vector3" where
  "Vector3_plus u v =
     \<lparr>x = Vector3.x u + Vector3.x v, y = Vector3.y u + Vector3.y v,
      z = Vector3.z u + Vector3.z v\<rparr>"

definition Vector3_minus :: "Vector3 \<Rightarrow> Vector3 \<Rightarrow> Vector3" where
  "Vector3_minus u v =
     \<lparr>x = Vector3.x u - Vector3.x v, y = Vector3.y u - Vector3.y v,
      z = Vector3.z u - Vector3.z v\<rparr>"

definition Vector3_uminus :: "Vector3 \<Rightarrow> Vector3" where
  "Vector3_uminus v = \<lparr>x = - Vector3.x v, y = - Vector3.y v, z = - Vector3.z v\<rparr>"

definition Vector3_scale :: "real \<Rightarrow> Vector3 \<Rightarrow> Vector3" where
  "Vector3_scale k v = \<lparr>x = k * Vector3.x v, y = k * Vector3.y v, z = k * Vector3.z v\<rparr>"

definition Vector3_div :: "Vector3 \<Rightarrow> real \<Rightarrow> Vector3" where
  "Vector3_div v k = \<lparr>x = Vector3.x v / k, y = Vector3.y v / k, z = Vector3.z v / k\<rparr>"

definition Dot :: "Vector3 \<Rightarrow> Vector3 \<Rightarrow> real" where
  "Dot u v = Vector3.x u * Vector3.x v + Vector3.y u * Vector3.y v + Vector3.z u * Vector3.z v"

definition Magnitude :: "Vector3 \<Rightarrow> real" where
  "Magnitude v = sqrt (Dot v v)"

text \<open>
  Modelled from the spec: \<^verbatim>\<open>Vector3::Normalize\<close> divides the vector by its length in
  place and returns the length; here it returns the length and the new vector.
\<close>

definition Normalize :: "Vector3 \<Rightarrow> real \<times> Vector3" where
  "Normalize v = (let m = Magnitude v in (m, Vector3_div v m))"

text \<open>Modelled from the spec: \<^verbatim>\<open>Vector3::Normalized\<close> returns a normalized copy.\<close>

definition Normalized :: "Vector3 \<Rightarrow> Vector3" where
  "Normalized v = Vector3_div v (Magnitude v)"

text \<open>
  Modelled from the spec: the operators of \<^verbatim>\<open>ColorRGB\<close>: \<^verbatim>\<open>+=\<close>, the componentwise
  product, the product with a scalar, and \<^verbatim>\<open>MaxToOne\<close> (if a channel exceeds 1, all
  channels are divided by the largest one).
\<close>

definition ColorRGB_zero :: ColorRGB where
  "ColorRGB_zero = \<lparr>r = 0, g = 0, b = 0\<rparr>"

definition ColorRGB_plus :: "ColorRGB \<Rightarrow> ColorRGB \<Rightarrow> ColorRGB" where
  "ColorRGB_plus c d =
     \<lparr>r = ColorRGB.r c + ColorRGB.r d, g = ColorRGB.g c + ColorRGB.g d,
      b = ColorRGB.b c + ColorRGB.b d\<rparr>"

definition ColorRGB_times :: "ColorRGB \<Rightarrow> ColorRGB \<Rightarrow> ColorRGB" where
  "ColorRGB_times c d =
     \<lparr>r = ColorRGB.r c * ColorRGB.r d, g = ColorRGB.g c * ColorRGB.g d,
      b = ColorRGB.b c * ColorRGB.b d\<rparr>"

definition ColorRGB_scale :: "ColorRGB \<Rightarrow> real \<Rightarrow> ColorRGB" where
  "ColorRGB_scale c k = \<lparr>r = ColorRGB.r c * k, g = ColorRGB.g c * k, b = ColorRGB.b c * k\<rparr>"

definition MaxToOne :: "ColorRGB \<Rightarrow> ColorRGB" where
  "MaxToOne c =
     (let maxValue = max (ColorRGB.r c) (max (ColorRGB.g c) (ColorRGB.b c))
      in if maxValue > 1
         then \<lparr>r = ColorRGB.r c / maxValue, g = ColorRGB.g c / maxValue,
               b = ColorRGB.b c / maxValue\<rparr>
         else c)"

text \<open>
  \<^verbatim>\<open>static_cast<uint8_t>(f)\<close> drops the fractional part of \<open>f\<close>; the behaviour is
  undefined when the truncated value is not in \<open>0..255\<close>.
\<close>

definition to_uint8 :: "real \<Rightarrow> 8 word option" where
  "to_uint8 f =
     (let k = (if f < 0 then \<lceil>f\<rceil> else \<lfloor>f\<rfloor>)
      in if 0 \<le> k \<and> k \<le> 255 then Some (word_of_int k) else None)"

subsection \<open>The renderer, the scene and the collaborators\<close>

type_synonym framebuffer = "nat \<Rightarrow> 32 word"

text \<open>
  The members of \<^verbatim>\<open>Renderer\<close>. The ints \<^verbatim>\<open>m_Width\<close> and \<^verbatim>\<open>m_Height\<close> are the
  size of a window and never negative; \<^verbatim>\<open>m_pBufferPixels\<close> is the pixel memory of
  the window surface, addressed by offset.
\<close>

record Renderer =
  m_Width :: nat
  m_Height :: nat
  m_CurrentLightingMode :: LightingMode
  m_ShadowsEnabled :: bool
  m_pBufferPixels :: framebuffer

text \<open>
  What \<^verbatim>\<open>Scene\<close> offers to the renderer. \<^verbatim>\<open>GetClosestHit\<close> fills a fresh
  \<^verbatim>\<open>HitRecord\<close>; here it returns it. Lights are of a type \<open>'l\<close> and materials of
  a type \<open>'m\<close>, which the renderer only hands on.
\<close>

record ('l, 'm) Scene =
  GetClosestHit :: "Ray \<Rightarrow> HitRecord"
  DoesHit :: "Ray \<Rightarrow> bool"
  GetCamera :: Camera
  GetLights :: "'l list"
  GetMaterials :: "'m list"

text \<open>
  The functions of other units that \<^verbatim>\<open>Renderer.cpp\<close> calls:
  \<^verbatim>\<open>LightUtils::GetDirectionToLight\<close>, \<^verbatim>\<open>LightUtils::GetRadiance\<close>,
  \<^verbatim>\<open>Material::Shade\<close>, \<^verbatim>\<open>Camera::CalculateCameraToWorld\<close> and \<^verbatim>\<open>SDL_MapRGB\<close>
  (for the pixel format of the surface), and the default member values of \<^verbatim>\<open>Ray\<close>.
\<close>

record ('l, 'm) Collaborators =
  GetDirectionToLight :: "'l \<Rightarrow> Vector3 \<Rightarrow> Vector3"
  GetRadiance :: "'l \<Rightarrow> Vector3 \<Rightarrow> ColorRGB"
  Shade :: "'m \<Rightarrow> HitRecord \<Rightarrow> Vector3 \<Rightarrow> Vector3 \<Rightarrow> ColorRGB"
  CalculateCameraToWorld :: "Camera \<Rightarrow> (Vector3 \<Rightarrow> Vector3)"
  SDL_MapRGB :: "8 word \<Rightarrow> 8 word \<Rightarrow> 8 word \<Rightarrow> 32 word"
  Ray_default :: Ray
    \<comment> \<open>the value of \<^verbatim>\<open>Ray{}\<close>: the default bounds of a ray\<close>

text \<open>The calls a pixel makes to the scene, the lights and the materials, in order.\<close>

datatype 'l call =
    GetClosestHit_call Ray
  | GetDirectionToLight_call 'l Vector3
  | DoesHit_call Ray
  | GetRadiance_call 'l Vector3
  | Shade_call nat HitRecord Vector3 Vector3

section \<open>Renderer::CycleLightingMode\<close>

fun next_mode :: "LightingMode \<Rightarrow> LightingMode" where
  "next_mode ObservedArea = Radiance"
| "next_mode Radiance = BRDF"
| "next_mode BRDF = Combined"
| "next_mode Combined = ObservedArea"

definition CycleLightingMode :: "Renderer \<Rightarrow> Renderer" where
  "CycleLightingMode R = R\<lparr>m_CurrentLightingMode := next_mode (m_CurrentLightingMode R)\<rparr>"

section \<open>Renderer::RenderPixel\<close>

subsection \<open>The loop over the lights\<close>

text \<open>
  The locals that the loop over the lights reads and writes: \<^verbatim>\<open>finalColor\<close>,
  \<^verbatim>\<open>shadowRay\<close> and \<^verbatim>\<open>shadowDir\<close> (declared before the loop), and the calls made
  so far.
\<close>

record 'l loop_state =
  finalColor :: ColorRGB
  shadowRay :: Ray
  shadowDir :: Vector3
  calls :: "'l call list"

text \<open>
  The body of the loop, for \<^verbatim>\<open>lights[i]\<close>. The two \<^verbatim>\<open>continue\<close> statements are the
  two early results. \<^verbatim>\<open>DoesHit\<close> is the left operand of \<^verbatim>\<open>&&\<close>, so it is called
  whatever \<^verbatim>\<open>m_ShadowsEnabled\<close> is. \<^verbatim>\<open>materials[closestHit.materialIndex]\<close> outside
  the vector is undefined behaviour. The local \<^verbatim>\<open>v\<close> is computed and never read.
\<close>

definition light_body ::
  "Renderer \<Rightarrow> ('l, 'm) Collaborators \<Rightarrow> ('l, 'm) Scene \<Rightarrow> 'm list \<Rightarrow> Ray \<Rightarrow> HitRecord \<Rightarrow>
   'l \<Rightarrow> 'l loop_state \<Rightarrow> 'l loop_state option" where
  "light_body R C pScene materials viewRay closestHit light st =
     (let (len, dir) = Normalize (GetDirectionToLight C light (HitRecord.origin closestHit));
          ray = (shadowRay st)
            \<lparr>max_bound := len,
             Ray.origin := Vector3_plus (HitRecord.origin closestHit)
                             (Vector3_scale (min_bound (shadowRay st)) dir),
             direction := dir\<rparr>;
          st1 = st\<lparr>shadowDir := dir, shadowRay := ray,
                   calls := calls st @
                     [GetDirectionToLight_call light (HitRecord.origin closestHit)]\<rparr>;
          v = Vector3_minus (HitRecord.origin closestHit) (direction viewRay)
      in if Dot (normal closestHit) dir < 0 then Some st1
         else
           let occluded = DoesHit pScene ray;
               st2 = st1\<lparr>calls := calls st1 @ [DoesHit_call ray]\<rparr>
           in if occluded \<and> m_ShadowsEnabled R then Some st2
              else
                let E = GetRadiance C light (HitRecord.origin closestHit);
                    st3 = st2\<lparr>calls := calls st2 @
                            [GetRadiance_call light (HitRecord.origin closestHit)]\<rparr>
                in if materialIndex closestHit < length materials
                   then
                     let BRDFrgb = Shade C (materials ! materialIndex closestHit) closestHit
                                     (Normalized dir) (Normalized (direction viewRay));
                         st4 = st3\<lparr>calls := calls st3 @
                                 [Shade_call (materialIndex closestHit) closestHit
                                    (Normalized dir) (Normalized (direction viewRay))]\<rparr>
                     in Some (st4\<lparr>finalColor :=
                          (case m_CurrentLightingMode R of
                             ObservedArea \<Rightarrow>
                               ColorRGB_plus (finalColor st4)
                                 (ColorRGB_scale \<lparr>r = 1, g = 1, b = 1\<rparr>
                                    (Dot (normal closestHit) dir))
                           | Radiance \<Rightarrow> ColorRGB_plus (finalColor st4) E
                           | BRDF \<Rightarrow> ColorRGB_plus (finalColor st4) BRDFrgb
                           | Combined \<Rightarrow>
                               ColorRGB_plus (finalColor st4)
                                 (ColorRGB_scale (ColorRGB_times E BRDFrgb)
                                    (Dot (normal closestHit) dir)))\<rparr>)
                   else None)"

text \<open>\<^verbatim>\<open>for (size_t i = 0; i < lights.size(); ++i)\<close>: the lights in order.\<close>

fun lights_loop ::
  "Renderer \<Rightarrow> ('l, 'm) Collaborators \<Rightarrow> ('l, 'm) Scene \<Rightarrow> 'm list \<Rightarrow> Ray \<Rightarrow> HitRecord \<Rightarrow>
   'l list \<Rightarrow> 'l loop_state \<Rightarrow> 'l loop_state option" where
  "lights_loop R C pScene materials viewRay closestHit [] st = Some st"
| "lights_loop R C pScene materials viewRay closestHit (light # rest) st =
     (case light_body R C pScene materials viewRay closestHit light st of
        None \<Rightarrow> None
      | Some st' \<Rightarrow> lights_loop R C pScene materials viewRay closestHit rest st')"

subsection \<open>One pixel\<close>

text \<open>
  The view ray of the pixel \<open>(px, py)\<close>: through the centre of the pixel, in camera
  space, then transformed to the world and normalized.
\<close>

definition view_ray ::
  "Renderer \<Rightarrow> ('l, 'm) Collaborators \<Rightarrow> nat \<Rightarrow> nat \<Rightarrow> real \<Rightarrow> real \<Rightarrow> Camera \<Rightarrow> Ray" where
  "view_ray R C px py fov aspectRatio camera =
     (let rx = real px + 0.5;
          ry = real py + 0.5;
          cx = (2 * (rx / real (m_Width R)) - 1) * aspectRatio * fov;
          cy = (1 - (2 * (ry / real (m_Height R)))) * fov;
          cameraSpaceDir = \<lparr>x = cx, y = cy, z = 1\<rparr>;
          rayDirection = Normalized (cameraToWorld camera cameraSpaceDir)
      in (Ray_default C)\<lparr>Ray.origin := Camera.origin camera, direction := rayDirection\<rparr>)"

text \<open>The locals before the loop over the lights; \<^verbatim>\<open>shadowRay.min = 0.01f\<close>.\<close>

definition initial_state :: "('l, 'm) Collaborators \<Rightarrow> Ray \<Rightarrow> 'l loop_state" where
  "initial_state C viewRay =
     \<lparr>finalColor = ColorRGB_zero,
      shadowRay = (Ray_default C)\<lparr>min_bound := 0.01\<rparr>,
      shadowDir = \<lparr>x = 0, y = 0, z = 0\<rparr>,
      calls = [GetClosestHit_call viewRay]\<rparr>"

text \<open>
  The end of \<^verbatim>\<open>RenderPixel\<close>: \<^verbatim>\<open>MaxToOne\<close>, the three casts to a byte, and the pixel
  value of \<^verbatim>\<open>SDL_MapRGB\<close>.
\<close>

definition pixel_value :: "('l, 'm) Collaborators \<Rightarrow> ColorRGB \<Rightarrow> 32 word option" where
  "pixel_value C c =
     (let c' = MaxToOne c
      in case to_uint8 (ColorRGB.r c' * 255) of
           None \<Rightarrow> None
         | Some rb \<Rightarrow>
             (case to_uint8 (ColorRGB.g c' * 255) of
                None \<Rightarrow> None
              | Some gb \<Rightarrow>
                  (case to_uint8 (ColorRGB.b c' * 255) of
                     None \<Rightarrow> None
                   | Some bb \<Rightarrow> Some (SDL_MapRGB C rb gb bb))))"

text \<open>
  \<^verbatim>\<open>RenderPixel\<close> returns the write it makes to the pixel memory, as the offset and
  the value, and the calls it made. \<^verbatim>\<open>pixelIndex % m_Width\<close> is undefined for a width
  of 0.
\<close>

definition RenderPixel ::
  "Renderer \<Rightarrow> ('l, 'm) Collaborators \<Rightarrow> ('l, 'm) Scene \<Rightarrow> nat \<Rightarrow> real \<Rightarrow> real \<Rightarrow> Camera \<Rightarrow>
   'l list \<Rightarrow> 'm list \<Rightarrow> ((nat \<times> 32 word) \<times> 'l call list) option" where
  "RenderPixel R C pScene pixelIndex fov aspectRatio camera lights materials =
     (if m_Width R = 0 then None
      else
        let px = pixelIndex mod m_Width R;
            py = pixelIndex div m_Width R;
            viewRay = view_ray R C px py fov aspectRatio camera;
            closestHit = GetClosestHit pScene viewRay;
            st0 = initial_state C viewRay
        in case (if didHit closestHit
                 then lights_loop R C pScene materials viewRay closestHit lights st0
                 else Some st0) of
             None \<Rightarrow> None
           | Some st \<Rightarrow>
               (case pixel_value C (finalColor st) of
                  None \<Rightarrow> None
                | Some p \<Rightarrow> Some ((px + (py * m_Width R), p), calls st)))"

section \<open>Renderer::Render\<close>

text \<open>
  \<^verbatim>\<open>const uint32_t numPixels = m_Width * m_Height\<close>: the product of two ints, converted
  to 32 bits. The product of the ints is defined below \<open>2 ^ 31\<close> only.
\<close>

definition numPixels :: "Renderer \<Rightarrow> nat" where
  "numPixels R = (m_Width R * m_Height R) mod 2 ^ 32"

text \<open>Modelled from the spec: \<^verbatim>\<open>TO_RADIANS\<close> of \<^verbatim>\<open>Math.h\<close>, degrees to radians.\<close>

definition TO_RADIANS :: real where
  "TO_RADIANS = pi / 180"

text \<open>
  What every strategy runs for the index \<open>i\<close>: \<^verbatim>\<open>RenderPixel\<close> with the values that
  \<^verbatim>\<open>Render\<close> computes once, before any pixel: the camera with its matrix recomputed,
  \<^verbatim>\<open>fov\<close>, \<^verbatim>\<open>aspectRatio\<close>, the lights and the materials of the scene.
\<close>

definition frame_pixel ::
  "Renderer \<Rightarrow> ('l, 'm) Collaborators \<Rightarrow> ('l, 'm) Scene \<Rightarrow> nat \<Rightarrow>
   ((nat \<times> 32 word) \<times> 'l call list) option" where
  "frame_pixel R C pScene i =
     (let camera = (GetCamera pScene)
            \<lparr>cameraToWorld := CalculateCameraToWorld C (GetCamera pScene)\<rparr>;
          fovAngle' = fovAngle camera * TO_RADIANS;
          fov = tan (fovAngle' / 2);
          aspectRatio = real (m_Width R) / real (m_Height R)
      in RenderPixel R C pScene i fov aspectRatio camera (GetLights pScene)
           (GetMaterials pScene))"

text \<open>
  \<^verbatim>\<open>for (; i < n; ++i) RenderPixel(..., i, ...)\<close>, on the pixel memory
  \<open>fb\<close>: the loop of the sequential strategy and of every task of the task-partitioned
  one.
\<close>

function pixel_loop ::
  "(nat \<Rightarrow> ((nat \<times> 32 word) \<times> 'c) option) \<Rightarrow> nat \<Rightarrow> nat \<Rightarrow> framebuffer \<Rightarrow> framebuffer option"
  where
  "pixel_loop f i n fb =
     (if i < n
      then (case f i of
              None \<Rightarrow> None
            | Some ((offset, p), _) \<Rightarrow> pixel_loop f (i + 1) n (fb(offset := p)))
      else Some fb)"
  by pat_completeness auto
termination
  by (relation "measure (\<lambda>(f, i, n, fb). n - i)") auto

declare pixel_loop.simps [simp del]

text \<open>The calls of \<^verbatim>\<open>RenderPixel\<close> for the indices of a schedule, in its order.\<close>

fun run_pixels ::
  "(nat \<Rightarrow> ((nat \<times> 32 word) \<times> 'c) option) \<Rightarrow> nat list \<Rightarrow> framebuffer \<Rightarrow> framebuffer option"
  where
  "run_pixels f [] fb = Some fb"
| "run_pixels f (i # sched) fb =
     (case f i of
        None \<Rightarrow> None
      | Some ((offset, p), _) \<Rightarrow> run_pixels f sched (fb(offset := p)))"

text \<open>The renderer after a frame: the pixel memory is what changed.\<close>

definition frame_done :: "Renderer \<Rightarrow> framebuffer option \<Rightarrow> Renderer option" where
  "frame_done R res = map_option (\<lambda>fb. R\<lparr>m_pBufferPixels := fb\<rparr>) res"

subsection \<open>No threading\<close>

definition Render_sequential ::
  "Renderer \<Rightarrow> ('l, 'm) Collaborators \<Rightarrow> ('l, 'm) Scene \<Rightarrow> Renderer option" where
  "Render_sequential R C pScene =
     frame_done R (pixel_loop (frame_pixel R C pScene) 0 (numPixels R) (m_pBufferPixels R))"

subsection \<open>Async\<close>

text \<open>
  The loop over \<^verbatim>\<open>coreId\<close>: the task of each core as the pair of
  \<^verbatim>\<open>currPixelIndex\<close> and \<^verbatim>\<open>pixelIndexEnd\<close>. The counters are \<^verbatim>\<open>uint32_t\<close>, so
  sums wrap at \<open>2 ^ 32\<close>.
\<close>

function async_tasks :: "nat \<Rightarrow> nat \<Rightarrow> nat \<Rightarrow> nat \<Rightarrow> nat \<Rightarrow> (nat \<times> nat) list" where
  "async_tasks coreId numCores numPixelsPerTask numUnassignedPixels currPixelIndex =
     (if coreId < numCores
      then
        let taskSize = (if numUnassignedPixels > 0
                        then (numPixelsPerTask + 1) mod 2 ^ 32 else numPixelsPerTask);
            numUnassignedPixels' = (if numUnassignedPixels > 0
                        then numUnassignedPixels - 1 else numUnassignedPixels);
            pixelIndexEnd = (currPixelIndex + taskSize) mod 2 ^ 32
        in (currPixelIndex, pixelIndexEnd) #
           async_tasks (coreId + 1) numCores numPixelsPerTask numUnassignedPixels'
             ((currPixelIndex + taskSize) mod 2 ^ 32)
      else [])"
  by pat_completeness auto
termination
  by (relation "measure (\<lambda>(coreId, numCores, _). numCores - coreId)") auto

declare async_tasks.simps [simp del]

text \<open>The indices a task renders, in its order.\<close>

definition task_indices :: "nat \<times> nat \<Rightarrow> nat list" where
  "task_indices task = [fst task..<snd task]"

text \<open>
  The tasks run concurrently. A pixel reads what no task writes and writes one slot at
  its end, so a run of the tasks is modelled by an interleaving of whole pixels: the next
  pixel is the next index of any task that has one left.
\<close>

inductive interleaving :: "nat list list \<Rightarrow> nat list \<Rightarrow> bool" where
  finished: "concat tasks = [] \<Longrightarrow> interleaving tasks []"
| next_pixel: "k < length tasks \<Longrightarrow> tasks ! k = i # rest \<Longrightarrow>
     interleaving (tasks[k := rest]) sched \<Longrightarrow> interleaving tasks (i # sched)"

text \<open>
  \<^verbatim>\<open>numPixels / numCores\<close> is undefined when \<^verbatim>\<open>hardware_concurrency()\<close> is 0. The
  relation holds for the renderers a run of the tasks can end with.
\<close>

definition Render_async ::
  "Renderer \<Rightarrow> ('l, 'm) Collaborators \<Rightarrow> ('l, 'm) Scene \<Rightarrow> nat \<Rightarrow> Renderer option \<Rightarrow> bool" where
  "Render_async R C pScene numCores res =
     (if numCores = 0 then res = None
      else
        let numPixelsPerTask = numPixels R div numCores;
            numUnassignedPixels = numPixels R mod numCores;
            tasks = async_tasks 0 numCores numPixelsPerTask numUnassignedPixels 0
        in \<exists>sched. interleaving (map task_indices tasks) sched \<and>
             res = frame_done R
               (run_pixels (frame_pixel R C pScene) sched (m_pBufferPixels R)))"

subsection \<open>Parallel for\<close>

text \<open>
  \<^verbatim>\<open>concurrency::parallel_for(0u, numPixels, ...)\<close> runs its body once for every index
  from 0 up to \<^verbatim>\<open>numPixels\<close>, in an order it chooses.
\<close>

definition Render_parallel_for ::
  "Renderer \<Rightarrow> ('l, 'm) Collaborators \<Rightarrow> ('l, 'm) Scene \<Rightarrow> Renderer option \<Rightarrow> bool" where
  "Render_parallel_for R C pScene res =
     (\<exists>sched. mset sched = mset [0..<numPixels R] \<and>
        res = frame_done R
          (run_pixels (frame_pixel R C pScene) sched (m_pBufferPixels R)))"

section \<open>Renderer::SaveBufferToImage\<close>

text \<open>
  The member function is \<^verbatim>\<open>const\<close>: it hands the surface to \<^verbatim>\<open>SDL_SaveBMP\<close> and
  converts the int it gets to a bool.
\<close>

definition SaveBufferToImage ::
  "(framebuffer \<Rightarrow> string \<Rightarrow> int) \<Rightarrow> Renderer \<Rightarrow> bool \<times> Renderer" where
  "SaveBufferToImage SDL_SaveBMP R =
     (SDL_SaveBMP (m_pBufferPixels R) ''RayTracing_Buffer.bmp'' \<noteq> 0, R)"

section \<open>The lights of a pixel, in closed form\<close>

text \<open>
  The definitions of this section are not translated from the code: they say what the
  loop over the lights is expected to compute, and the lemmas below relate the loop to
  them.
\<close>

text \<open>The direction to the light \<open>L\<close> from the hit point, after \<^verbatim>\<open>shadowDir.Normalize()\<close>.\<close>

definition light_dir :: "('l, 'm) Collaborators \<Rightarrow> HitRecord \<Rightarrow> 'l \<Rightarrow> Vector3" where
  "light_dir C h L = snd (Normalize (GetDirectionToLight C L (HitRecord.origin h)))"

text \<open>What \<^verbatim>\<open>shadowDir.Normalize()\<close> returns: the length of the direction to the light.\<close>

definition light_distance :: "('l, 'm) Collaborators \<Rightarrow> HitRecord \<Rightarrow> 'l \<Rightarrow> real" where
  "light_distance C h L = fst (Normalize (GetDirectionToLight C L (HitRecord.origin h)))"

text \<open>The shadow ray of the specification: from the hit point, moved by \<open>0.01\<close> along the
  direction to the light, up to the light.\<close>

definition light_ray :: "('l, 'm) Collaborators \<Rightarrow> HitRecord \<Rightarrow> 'l \<Rightarrow> Ray" where
  "light_ray C h L =
     \<lparr>Ray.origin = Vector3_plus (HitRecord.origin h) (Vector3_scale 0.01 (light_dir C h L)),
      direction = light_dir C h L,
      min_bound = 0.01,
      max_bound = light_distance C h L\<rparr>"

text \<open>The light is not skipped by the first \<^verbatim>\<open>continue\<close>.\<close>

definition front_facing :: "('l, 'm) Collaborators \<Rightarrow> HitRecord \<Rightarrow> 'l \<Rightarrow> bool" where
  "front_facing C h L = (\<not> Dot (normal h) (light_dir C h L) < 0)"

text \<open>The light is skipped by the second \<^verbatim>\<open>continue\<close>.\<close>

definition shadowed ::
  "Renderer \<Rightarrow> ('l, 'm) Collaborators \<Rightarrow> ('l, 'm) Scene \<Rightarrow> HitRecord \<Rightarrow> 'l \<Rightarrow> bool" where
  "shadowed R C pScene h L = (DoesHit pScene (light_ray C h L) \<and> m_ShadowsEnabled R)"

text \<open>The light passes both tests: its term is added to \<^verbatim>\<open>finalColor\<close>.\<close>

definition contributes ::
  "Renderer \<Rightarrow> ('l, 'm) Collaborators \<Rightarrow> ('l, 'm) Scene \<Rightarrow> HitRecord \<Rightarrow> 'l \<Rightarrow> bool" where
  "contributes R C pScene h L = (front_facing C h L \<and> \<not> shadowed R C pScene h L)"

text \<open>The term of a light under a lighting mode.\<close>

definition light_term ::
  "LightingMode \<Rightarrow> ('l, 'm) Collaborators \<Rightarrow> 'm list \<Rightarrow> Ray \<Rightarrow> HitRecord \<Rightarrow> 'l \<Rightarrow> ColorRGB" where
  "light_term mode C materials viewRay h L =
     (let E = GetRadiance C L (HitRecord.origin h);
          BRDFrgb = Shade C (materials ! materialIndex h) h
                      (Normalized (light_dir C h L)) (Normalized (direction viewRay));
          cosTheta = Dot (normal h) (light_dir C h L)
      in case mode of
           ObservedArea \<Rightarrow> ColorRGB_scale \<lparr>r = 1, g = 1, b = 1\<rparr> cosTheta
         | Radiance \<Rightarrow> E
         | BRDF \<Rightarrow> BRDFrgb
         | Combined \<Rightarrow> ColorRGB_scale (ColorRGB_times E BRDFrgb) cosTheta)"

text \<open>The calls made for one light.\<close>

definition light_calls ::
  "Renderer \<Rightarrow> ('l, 'm) Collaborators \<Rightarrow> ('l, 'm) Scene \<Rightarrow> Ray \<Rightarrow> HitRecord \<Rightarrow> 'l \<Rightarrow> 'l call list"
  where
  "light_calls R C pScene viewRay h L =
     GetDirectionToLight_call L (HitRecord.origin h) #
     (if front_facing C h L
      then DoesHit_call (light_ray C h L) #
        (if shadowed R C pScene h L then []
         else [GetRadiance_call L (HitRecord.origin h),
               Shade_call (materialIndex h) h
                 (Normalized (light_dir C h L)) (Normalized (direction viewRay))])
      else [])"

text \<open>The sum of the terms of the lights that contribute, in their order.\<close>

definition accumulated_color ::
  "Renderer \<Rightarrow> ('l, 'm) Collaborators \<Rightarrow> ('l, 'm) Scene \<Rightarrow> 'm list \<Rightarrow> Ray \<Rightarrow> HitRecord \<Rightarrow>
   'l list \<Rightarrow> ColorRGB" where
  "accumulated_color R C pScene materials viewRay h lights =
     foldl ColorRGB_plus ColorRGB_zero
       (map (light_term (m_CurrentLightingMode R) C materials viewRay h)
          (filter (contributes R C pScene h) lights))"

text \<open>No light that gets as far as \<^verbatim>\<open>Shade\<close> finds the material index outside the vector.\<close>

definition defined_for ::
  "Renderer \<Rightarrow> ('l, 'm) Collaborators \<Rightarrow> ('l, 'm) Scene \<Rightarrow> 'm list \<Rightarrow> HitRecord \<Rightarrow> 'l list \<Rightarrow> bool"
  where
  "defined_for R C pScene materials h lights =
     (materialIndex h < length materials \<or> filter (contributes R C pScene h) lights = [])"

text \<open>The value of \<^verbatim>\<open>finalColor\<close> after the loop has handled the lights given, from the
  state \<^verbatim>\<open>RenderPixel\<close> starts it in.\<close>

definition running_color ::
  "Renderer \<Rightarrow> ('l, 'm) Collaborators \<Rightarrow> ('l, 'm) Scene \<Rightarrow> 'm list \<Rightarrow> Ray \<Rightarrow> HitRecord \<Rightarrow>
   'l list \<Rightarrow> ColorRGB option" where
  "running_color R C pScene materials viewRay h lights =
     map_option finalColor
       (lights_loop R C pScene materials viewRay h lights (initial_state C viewRay))"

section \<open>A scene with one wall\<close>

text \<open>
  A scene to run the renderer on: a wall across the \<open>z\<close> axis at distance 5, facing the
  camera at the origin, one point light at distance 3 in front of the wall, one material
  of a fixed colour, and a window of 2 by 2 pixels. Lights are given by their position
  and materials by their colour.
\<close>

definition wall_hit :: HitRecord where
  "wall_hit =
     \<lparr>HitRecord.origin = \<lparr>x = 0, y = 0, z = 5\<rparr>, normal = \<lparr>x = 0, y = 0, z = - 1\<rparr>,
      t = 5, didHit = True, materialIndex = 0\<rparr>"

definition no_hit :: HitRecord where
  "no_hit =
     \<lparr>HitRecord.origin = \<lparr>x = 0, y = 0, z = 0\<rparr>, normal = \<lparr>x = 0, y = 0, z = 0\<rparr>,
      t = 0, didHit = False, materialIndex = 0\<rparr>"

definition wall_camera :: Camera where
  "wall_camera =
     \<lparr>Camera.origin = \<lparr>x = 0, y = 0, z = 0\<rparr>, fovAngle = 0, cameraToWorld = (\<lambda>v. v)\<rparr>"

definition wall_scene :: "(Vector3, ColorRGB) Scene" where
  "wall_scene =
     \<lparr>GetClosestHit = (\<lambda>ray. if Vector3.z (direction ray) > 0 then wall_hit else no_hit),
      DoesHit = (\<lambda>ray. False),
      GetCamera = wall_camera,
      GetLights = [\<lparr>x = 0, y = 0, z = 3\<rparr>],
      GetMaterials = [\<lparr>r = 1, g = 1 / 5, b = 0\<rparr>]\<rparr>"

definition wall_collaborators :: "(Vector3, ColorRGB) Collaborators" where
  "wall_collaborators =
     \<lparr>GetDirectionToLight = (\<lambda>L p. Vector3_minus L p),
      GetRadiance = (\<lambda>L p. \<lparr>r = 1, g = 1, b = 1\<rparr>),
      Shade = (\<lambda>m h l v. m),
      CalculateCameraToWorld = (\<lambda>camera v. v),
      SDL_MapRGB = (\<lambda>rb gb bb. ucast rb * 65536 + ucast gb * 256 + ucast bb),
      Ray_default =
        \<lparr>Ray.origin = \<lparr>x = 0, y = 0, z = 0\<rparr>, direction = \<lparr>x = 0, y = 0, z = 0\<rparr>,
         min_bound = 0, max_bound = 1000\<rparr>\<rparr>"

definition wall_renderer :: Renderer where
  "wall_renderer =
     \<lparr>m_Width = 2, m_Height = 2, m_CurrentLightingMode = Combined, m_ShadowsEnabled = True,
      m_pBufferPixels = (\<lambda>offset. 0)\<rparr>"

text \<open>The same renderer with a window of one pixel, whose centre is on the axis of the camera.\<close>

definition one_pixel_renderer :: Renderer where
  "one_pixel_renderer =
     \<lparr>m_Width = 1, m_Height = 1, m_CurrentLightingMode = Combined, m_ShadowsEnabled = True,
      m_pBufferPixels = (\<lambda>offset. 0)\<rparr>"

section \<open>Vectors\<close>

text \<open>
  In exact arithmetic, dividing a vector by its length keeps the sign of its dot product
  with any other vector; a vector of length 0 is left at 0, as division by 0 is 0 in HOL.
\<close>

lemma Dot_Vector3_div: "Dot n (Vector3_div d m) = Dot n d / m"
  by (simp add: Dot_def Vector3_div_def add_divide_distrib)

lemma Dot_self_nonneg: "0 \<le> Dot d d"
  by (simp add: Dot_def)

lemma Dot_zero_length:
  assumes "Dot d d = 0"
  shows "Dot n d = 0"
proof -
  have "Vector3.x d * Vector3.x d + Vector3.y d * Vector3.y d + Vector3.z d * Vector3.z d = 0"
    using assms by (simp add: Dot_def)
  then have "Vector3.x d = 0 \<and> Vector3.y d = 0 \<and> Vector3.z d = 0"
    by (smt (verit) zero_le_square mult_eq_0_iff)
  then show ?thesis by (simp add: Dot_def)
qed

lemma Dot_normalized_sign:
  "Dot n (snd (Normalize d)) < 0 \<longleftrightarrow> Dot n d < 0"
proof (cases "Dot d d = 0")
  case True
  then show ?thesis
    by (simp add: Normalize_def Let_def Magnitude_def Dot_Vector3_div Dot_zero_length)
next
  case False
  with Dot_self_nonneg [of d] have "0 < sqrt (Dot d d)" by simp
  then show ?thesis
    by (simp add: Normalize_def Let_def Magnitude_def Dot_Vector3_div divide_less_0_iff)
qed

lemma snd_Normalize: "snd (Normalize d) = Normalized d"
  by (simp add: Normalize_def Let_def Normalized_def)

lemma fst_Normalize: "fst (Normalize d) = Magnitude d"
  by (simp add: Normalize_def Let_def)

section \<open>The loop over the lights and its closed form\<close>

lemma Ray_rebuild:
  "ray\<lparr>max_bound := a, Ray.origin := p, direction := d\<rparr> =
     \<lparr>Ray.origin = p, direction = d, min_bound = min_bound ray, max_bound = a\<rparr>"
  by (cases ray) simp

lemma light_body_closed:
  assumes mb: "min_bound (shadowRay st) = 0.01"
    and idx: "materialIndex h < length materials \<or> \<not> contributes R C pScene h L"
  shows "light_body R C pScene materials viewRay h L st =
     Some (st\<lparr>finalColor :=
                 (if contributes R C pScene h L
                  then ColorRGB_plus (finalColor st)
                         (light_term (m_CurrentLightingMode R) C materials viewRay h L)
                  else finalColor st),
              shadowRay := light_ray C h L,
              shadowDir := light_dir C h L,
              calls := calls st @ light_calls R C pScene viewRay h L\<rparr>)"
proof -
  obtain len dir where nd: "Normalize (GetDirectionToLight C L (HitRecord.origin h)) = (len, dir)"
    by (cases "Normalize (GetDirectionToLight C L (HitRecord.origin h))")
  have ld: "light_dir C h L = dir" and ll: "light_distance C h L = len"
    by (simp_all add: light_dir_def light_distance_def nd)
  have ray: "(shadowRay st)\<lparr>max_bound := len,
       Ray.origin := Vector3_plus (HitRecord.origin h) (Vector3_scale (min_bound (shadowRay st)) dir),
       direction := dir\<rparr> = light_ray C h L"
    by (simp add: Ray_rebuild light_ray_def ld ll mb)
  show ?thesis
  proof (cases "contributes R C pScene h L")
    case True
    with idx have "materialIndex h < length materials" by simp
    with True show ?thesis
      unfolding light_body_def nd
      by (cases "m_CurrentLightingMode R")
         (auto simp add: Let_def ray contributes_def front_facing_def shadowed_def
            light_term_def light_calls_def ld)
  next
    case False
    then show ?thesis
      unfolding light_body_def nd
      by (auto simp add: Let_def ray contributes_def front_facing_def shadowed_def
            light_calls_def ld)
  qed
qed

lemma light_ray_min_bound: "min_bound (light_ray C h L) = 0.01"
  by (simp add: light_ray_def)

lemma lights_loop_closed:
  assumes "min_bound (shadowRay st) = 0.01"
    and "materialIndex h < length materials \<or> (\<forall>L \<in> set lights. \<not> contributes R C pScene h L)"
  shows "\<exists>st'. lights_loop R C pScene materials viewRay h lights st = Some st' \<and>
           finalColor st' =
             foldl ColorRGB_plus (finalColor st)
               (map (light_term (m_CurrentLightingMode R) C materials viewRay h)
                  (filter (contributes R C pScene h) lights)) \<and>
           calls st' = calls st @ concat (map (light_calls R C pScene viewRay h) lights) \<and>
           min_bound (shadowRay st') = 0.01"
  using assms
proof (induction lights arbitrary: st)
  case Nil
  then show ?case by simp
next
  case (Cons L lights)
  from Cons.prems
  have step: "light_body R C pScene materials viewRay h L st =
     Some (st\<lparr>finalColor :=
                 (if contributes R C pScene h L
                  then ColorRGB_plus (finalColor st)
                         (light_term (m_CurrentLightingMode R) C materials viewRay h L)
                  else finalColor st),
              shadowRay := light_ray C h L,
              shadowDir := light_dir C h L,
              calls := calls st @ light_calls R C pScene viewRay h L\<rparr>)"
    (is "_ = Some ?st1")
    by (intro light_body_closed) auto
  have "min_bound (shadowRay ?st1) = 0.01"
    by (simp add: light_ray_min_bound)
  moreover from Cons.prems
  have "materialIndex h < length materials \<or> (\<forall>L \<in> set lights. \<not> contributes R C pScene h L)"
    by auto
  ultimately obtain st' where
    "lights_loop R C pScene materials viewRay h lights ?st1 = Some st'"
    "finalColor st' =
       foldl ColorRGB_plus (finalColor ?st1)
         (map (light_term (m_CurrentLightingMode R) C materials viewRay h)
            (filter (contributes R C pScene h) lights))"
    "calls st' = calls ?st1 @ concat (map (light_calls R C pScene viewRay h) lights)"
    "min_bound (shadowRay st') = 0.01"
    using Cons.IH [of ?st1] by blast
  then show ?case
    by (simp add: step)
qed

lemma RenderPixel_hit:
  assumes "0 < m_Width R"
    and "viewRay = view_ray R C (pixelIndex mod m_Width R) (pixelIndex div m_Width R)
                     fov aspectRatio camera"
    and "h = GetClosestHit pScene viewRay"
    and "didHit h"
    and "materialIndex h < length materials \<or> (\<forall>L \<in> set lights. \<not> contributes R C pScene h L)"
  shows "RenderPixel R C pScene pixelIndex fov aspectRatio camera lights materials =
     map_option
       (\<lambda>p. ((pixelIndex mod m_Width R + pixelIndex div m_Width R * m_Width R, p),
             GetClosestHit_call viewRay #
               concat (map (light_calls R C pScene viewRay h) lights)))
       (pixel_value C (accumulated_color R C pScene materials viewRay h lights))"
proof -
  have "min_bound (shadowRay (initial_state C viewRay :: 'a loop_state)) = 0.01"
    by (simp add: initial_state_def)
  from lights_loop_closed [OF this assms(5), of viewRay]
  obtain st' where
    "lights_loop R C pScene materials viewRay h lights (initial_state C viewRay) = Some st'"
    "finalColor st' = accumulated_color R C pScene materials viewRay h lights"
    "calls st' = GetClosestHit_call viewRay #
       concat (map (light_calls R C pScene viewRay h) lights)"
    by (auto simp: accumulated_color_def initial_state_def)
  with assms(1-4) show ?thesis
    by (simp add: RenderPixel_def Let_def split: option.splits)
qed

lemma pixel_value_zero:
  "pixel_value C ColorRGB_zero = Some (SDL_MapRGB C 0 0 0)"
  by (simp add: pixel_value_def MaxToOne_def ColorRGB_zero_def to_uint8_def)

lemma RenderPixel_miss:
  assumes "0 < m_Width R"
    and "viewRay = view_ray R C (pixelIndex mod m_Width R) (pixelIndex div m_Width R)
                     fov aspectRatio camera"
    and "\<not> didHit (GetClosestHit pScene viewRay)"
  shows "RenderPixel R C pScene pixelIndex fov aspectRatio camera lights materials =
     Some ((pixelIndex mod m_Width R + pixelIndex div m_Width R * m_Width R,
            SDL_MapRGB C 0 0 0), [GetClosestHit_call viewRay])"
  using assms
  by (simp add: RenderPixel_def Let_def initial_state_def pixel_value_zero)

lemma light_body_None:
  assumes "min_bound (shadowRay st) = 0.01"
    and "\<not> materialIndex h < length materials" and "contributes R C pScene h L"
  shows "light_body R C pScene materials viewRay h L st = None"
proof -
  obtain len dir where nd: "Normalize (GetDirectionToLight C L (HitRecord.origin h)) = (len, dir)"
    by (cases "Normalize (GetDirectionToLight C L (HitRecord.origin h))")
  have ld: "light_dir C h L = dir" and ll: "light_distance C h L = len"
    by (simp_all add: light_dir_def light_distance_def nd)
  have ray: "(shadowRay st)\<lparr>max_bound := len,
       Ray.origin := Vector3_plus (HitRecord.origin h) (Vector3_scale (min_bound (shadowRay st)) dir),
       direction := dir\<rparr> = light_ray C h L"
    by (simp add: Ray_rebuild light_ray_def ld ll assms(1))
  from assms(2,3) show ?thesis
    unfolding light_body_def nd
    by (auto simp add: Let_def ray contributes_def front_facing_def shadowed_def ld)
qed

lemma lights_loop_None:
  assumes "min_bound (shadowRay st) = 0.01"
    and "\<not> materialIndex h < length materials"
    and "\<exists>L \<in> set lights. contributes R C pScene h L"
  shows "lights_loop R C pScene materials viewRay h lights st = None"
  using assms
proof (induction lights arbitrary: st)
  case Nil
  then show ?case by simp
next
  case (Cons L lights)
  show ?case
  proof (cases "contributes R C pScene h L")
    case True
    with Cons.prems show ?thesis
      by (simp add: light_body_None)
  next
    case False
    with Cons.prems(1)
    have step: "light_body R C pScene materials viewRay h L st =
       Some (st\<lparr>finalColor := finalColor st,
                shadowRay := light_ray C h L,
                shadowDir := light_dir C h L,
                calls := calls st @ light_calls R C pScene viewRay h L\<rparr>)"
      (is "_ = Some ?st1")
      using light_body_closed [of st h materials R C pScene L viewRay] by simp
    have "min_bound (shadowRay ?st1) = 0.01"
      by (simp add: light_ray_min_bound)
    moreover from Cons.prems(3) False have "\<exists>L \<in> set lights. contributes R C pScene h L"
      by auto
    ultimately have "lights_loop R C pScene materials viewRay h lights ?st1 = None"
      using Cons.IH Cons.prems(2) by blast
    then show ?thesis
      by (simp add: step)
  qed
qed

lemma running_color_closed:
  "running_color R C pScene materials viewRay h lights =
     (if defined_for R C pScene materials h lights
      then Some (accumulated_color R C pScene materials viewRay h lights)
      else None)"
proof -
  have mb: "min_bound (shadowRay (initial_state C viewRay :: 'a loop_state)) = 0.01"
    by (simp add: initial_state_def)
  show ?thesis
  proof (cases "defined_for R C pScene materials h lights")
    case True
    then have "materialIndex h < length materials \<or>
        (\<forall>L \<in> set lights. \<not> contributes R C pScene h L)"
      by (auto simp: defined_for_def filter_empty_conv)
    from lights_loop_closed [OF mb this, of viewRay] True show ?thesis
      by (auto simp: running_color_def accumulated_color_def initial_state_def)
  next
    case False
    then have "\<not> materialIndex h < length materials"
      and "\<exists>L \<in> set lights. contributes R C pScene h L"
      by (auto simp: defined_for_def filter_empty_conv)
    from lights_loop_None [OF mb this, of viewRay] False show ?thesis
      by (simp add: running_color_def)
  qed
qed

lemma RenderPixel_closed:
  "RenderPixel R C pScene pixelIndex fov aspectRatio camera lights materials =
     (if m_Width R = 0 then None
      else
        let viewRay = view_ray R C (pixelIndex mod m_Width R) (pixelIndex div m_Width R)
                        fov aspectRatio camera;
            h = GetClosestHit pScene viewRay;
            offset = pixelIndex mod m_Width R + pixelIndex div m_Width R * m_Width R
        in if didHit h
           then if defined_for R C pScene materials h lights
                then map_option
                       (\<lambda>p. ((offset, p),
                          GetClosestHit_call viewRay #
                            concat (map (light_calls R C pScene viewRay h) lights)))
                       (pixel_value C (accumulated_color R C pScene materials viewRay h lights))
                else None
           else Some ((offset, SDL_MapRGB C 0 0 0), [GetClosestHit_call viewRay]))"
proof (cases "m_Width R = 0")
  case True
  then show ?thesis by (simp add: RenderPixel_def)
next
  case W: False
  define viewRay where "viewRay = view_ray R C (pixelIndex mod m_Width R)
    (pixelIndex div m_Width R) fov aspectRatio camera"
  define h where "h = GetClosestHit pScene viewRay"
  have mb: "min_bound (shadowRay (initial_state C viewRay :: 'a loop_state)) = 0.01"
    by (simp add: initial_state_def)
  show ?thesis
  proof (cases "didHit h")
    case False
    with W show ?thesis
      using RenderPixel_miss [of R viewRay C pixelIndex fov aspectRatio camera pScene]
      by (simp add: viewRay_def h_def Let_def)
  next
    case hit: True
    show ?thesis
    proof (cases "defined_for R C pScene materials h lights")
      case True
      then have "materialIndex h < length materials \<or>
          (\<forall>L \<in> set lights. \<not> contributes R C pScene h L)"
        by (auto simp: defined_for_def filter_empty_conv)
      with W hit True show ?thesis
        using RenderPixel_hit [of R viewRay C pixelIndex fov aspectRatio camera h pScene
            materials lights]
        by (simp add: viewRay_def h_def Let_def)
    next
      case False
      then have "\<not> materialIndex h < length materials"
        and "\<exists>L \<in> set lights. contributes R C pScene h L"
        by (auto simp: defined_for_def filter_empty_conv)
      from lights_loop_None [OF mb this, of viewRay]
      have "lights_loop R C pScene materials viewRay h lights (initial_state C viewRay) = None" .
      with W hit False show ?thesis
        by (simp add: RenderPixel_def Let_def viewRay_def [symmetric] h_def [symmetric])
    qed
  qed
qed

lemma light_body_shadowRay:
  assumes "light_body R C pScene materials viewRay h L st = Some st'"
  shows "shadowRay st' =
      \<lparr>Ray.origin = Vector3_plus (HitRecord.origin h)
         (Vector3_scale (min_bound (shadowRay st))
            (Normalized (GetDirectionToLight C L (HitRecord.origin h)))),
       direction = Normalized (GetDirectionToLight C L (HitRecord.origin h)),
       min_bound = min_bound (shadowRay st),
       max_bound = Magnitude (GetDirectionToLight C L (HitRecord.origin h))\<rparr>"
  using assms
  by (auto simp: light_body_def Let_def Normalize_def Normalized_def Ray_rebuild
      split: if_splits)

lemma lights_loop_append:
  "lights_loop R C pScene materials viewRay h (before @ rest) st =
     (case lights_loop R C pScene materials viewRay h before st of
        None \<Rightarrow> None
      | Some st1 \<Rightarrow> lights_loop R C pScene materials viewRay h rest st1)"
  by (induction before arbitrary: st) (auto split: option.splits)

lemma lights_loop_min_bound:
  assumes "lights_loop R C pScene materials viewRay h lights st = Some st'"
  shows "min_bound (shadowRay st') = min_bound (shadowRay st)"
  using assms
proof (induction lights arbitrary: st)
  case Nil
  then show ?case by simp
next
  case (Cons L lights)
  then obtain st1 where
    body: "light_body R C pScene materials viewRay h L st = Some st1"
    and rest: "lights_loop R C pScene materials viewRay h lights st1 = Some st'"
    by (auto split: option.splits)
  from light_body_shadowRay [OF body] have "min_bound (shadowRay st1) = min_bound (shadowRay st)"
    by simp
  with Cons.IH [OF rest] show ?case by simp
qed

lemma accumulated_color_snoc:
  "accumulated_color R C pScene materials viewRay h (before @ [L]) =
     (if contributes R C pScene h L
      then ColorRGB_plus (accumulated_color R C pScene materials viewRay h before)
             (light_term (m_CurrentLightingMode R) C materials viewRay h L)
      else accumulated_color R C pScene materials viewRay h before)"
  by (simp add: accumulated_color_def)

lemma running_color_skip:
  assumes "\<not> contributes R C pScene h L"
  shows "running_color R C pScene materials viewRay h (before @ [L]) =
         running_color R C pScene materials viewRay h before"
  using assms
  by (simp add: running_color_closed defined_for_def accumulated_color_snoc)

lemma running_color_add:
  assumes "contributes R C pScene h L" and "materialIndex h < length materials"
  shows "running_color R C pScene materials viewRay h (before @ [L]) =
         map_option
           (\<lambda>c. ColorRGB_plus c (light_term (m_CurrentLightingMode R) C materials viewRay h L))
           (running_color R C pScene materials viewRay h before)"
  using assms
  by (simp add: running_color_closed defined_for_def accumulated_color_snoc)

lemma running_color_Nil:
  "running_color R C pScene materials viewRay h [] = Some \<lparr>r = 0, g = 0, b = 0\<rparr>"
  by (simp add: running_color_def initial_state_def ColorRGB_zero_def)

lemma RenderPixel_without_light:
  assumes "\<not> contributes R C pScene
      (GetClosestHit pScene
         (view_ray R C (pixelIndex mod m_Width R) (pixelIndex div m_Width R)
            fov aspectRatio camera)) L"
  shows "map_option fst
           (RenderPixel R C pScene pixelIndex fov aspectRatio camera (before @ L # rest)
              materials) =
         map_option fst
           (RenderPixel R C pScene pixelIndex fov aspectRatio camera (before @ rest) materials)"
  using assms
  by (simp add: RenderPixel_closed Let_def defined_for_def accumulated_color_def
      option.map_comp comp_def)

lemma light_body_backfacing:
  assumes "Dot (normal h) (light_dir C h L) < 0"
  shows "\<exists>st'. light_body R C pScene materials viewRay h L st = Some st' \<and>
           finalColor st' = finalColor st \<and>
           calls st' = calls st @ [GetDirectionToLight_call L (HitRecord.origin h)]"
  using assms
  by (auto simp add: light_body_def light_dir_def Let_def split: prod.splits)

lemma RenderPixel_offset:
  assumes "RenderPixel R C pScene pixelIndex fov aspectRatio camera lights materials =
             Some ((offset, p), cs)"
  shows "offset = pixelIndex"
  using assms by (auto simp: RenderPixel_def Let_def split: if_splits option.splits)

lemma RenderPixel_calls:
  assumes "RenderPixel R C pScene pixelIndex fov aspectRatio camera lights materials =
             Some (w, cs)"
    and "viewRay = view_ray R C (pixelIndex mod m_Width R) (pixelIndex div m_Width R)
                     fov aspectRatio camera"
    and "h = GetClosestHit pScene viewRay"
    and "didHit h"
  shows "cs = GetClosestHit_call viewRay #
              concat (map (light_calls R C pScene viewRay h) lights)"
proof -
  have "m_Width R \<noteq> 0"
    using assms(1) by (auto simp: RenderPixel_def split: if_splits)
  with assms show ?thesis
    unfolding RenderPixel_closed Let_def
    by (simp split: if_splits) blast
qed

lemma contributes_shadows_disabled:
  assumes "\<not> m_ShadowsEnabled R"
  shows "contributes R C (pScene\<lparr>DoesHit := occluder\<rparr>) h = front_facing C h"
  using assms by (simp add: contributes_def shadowed_def fun_eq_iff)

lemma RenderPixel_shadows_disabled:
  assumes "\<not> m_ShadowsEnabled R"
  shows "map_option fst
      (RenderPixel R C (pScene\<lparr>DoesHit := occluder\<rparr>) pixelIndex fov aspectRatio camera
         lights materials) =
    map_option fst
      (RenderPixel R C (pScene\<lparr>DoesHit := occluder'\<rparr>) pixelIndex fov aspectRatio camera
         lights materials)"
  by (simp add: RenderPixel_closed Let_def defined_for_def accumulated_color_def
      contributes_shadows_disabled [OF assms] option.map_comp comp_def)

lemma DoesHit_call_in_light_calls:
  assumes "front_facing C h L"
  shows "DoesHit_call (light_ray C h L) \<in> set (light_calls R C pScene viewRay h L)"
  using assms by (simp add: light_calls_def)

section \<open>Frames and schedules\<close>

text \<open>
  A pixel writes the slot of its own index, so a frame is determined by the set of the
  indices that are run, whatever their order.
\<close>

lemma index_bij:
  fixes w h :: nat
  assumes "0 < w"
  shows "bij_betw (\<lambda>i. (i mod w, i div w)) {0..<w * h} ({0..<w} \<times> {0..<h})"
proof (rule bij_betw_byWitness [where f' = "\<lambda>(px, py). px + py * w"])
  show "\<forall>i \<in> {0..<w * h}. (case (i mod w, i div w) of (px, py) \<Rightarrow> px + py * w) = i"
    by simp
  show "\<forall>c \<in> {0..<w} \<times> {0..<h}.
      ((case c of (px, py) \<Rightarrow> px + py * w) mod w, (case c of (px, py) \<Rightarrow> px + py * w) div w) = c"
    by auto
  show "(\<lambda>i. (i mod w, i div w)) ` {0..<w * h} \<subseteq> {0..<w} \<times> {0..<h}"
    using assms by (auto simp: less_mult_imp_div_less mult.commute)
  show "(\<lambda>(px, py). px + py * w) ` ({0..<w} \<times> {0..<h}) \<subseteq> {0..<w * h}"
  proof clarify
    fix px py assume "px \<in> {0..<w}" "py \<in> {0..<h}"
    then have "px < w" "py + 1 \<le> h" by auto
    then have "px + py * w < (py + 1) * w" by simp
    also have "\<dots> \<le> h * w" using \<open>py + 1 \<le> h\<close> by (rule mult_le_mono1)
    finally show "px + py * w \<in> {0..<w * h}" by (simp add: mult.commute)
  qed
qed

lemma pixel_loop_run_pixels: "pixel_loop f i n fb = run_pixels f [i..<n] fb"
proof (induction f i n fb rule: pixel_loop.induct)
  case (1 f i n fb)
  show ?case
  proof (cases "i < n")
    case False
    then show ?thesis
      by (subst pixel_loop.simps) simp
  next
    case True
    show ?thesis
    proof (cases "f i")
      case None
      with True show ?thesis
        by (subst pixel_loop.simps) (simp add: upt_conv_Cons)
    next
      case (Some res)
      obtain offset p cs where res: "res = ((offset, p), cs)"
        by (cases res) auto
      from "1" [OF True Some [unfolded res] refl refl]
      have "pixel_loop f (i + 1) n (fb(offset := p)) = run_pixels f [i + 1..<n] (fb(offset := p))" .
      with True Some res show ?thesis
        by (subst pixel_loop.simps) (simp add: upt_conv_Cons)
    qed
  qed
qed

lemma frame_pixel_offset:
  assumes "frame_pixel R C pScene i = Some ((offset, p), cs)"
  shows "offset = i"
  using assms unfolding frame_pixel_def Let_def by (rule RenderPixel_offset)

lemma run_pixels_closed:
  assumes "\<And>i offset p cs. f i = Some ((offset, p), cs) \<Longrightarrow> offset = i"
  shows "run_pixels f sched fb =
     (if \<forall>i \<in> set sched. f i \<noteq> None
      then Some (\<lambda>k. if k \<in> set sched then snd (fst (the (f k))) else fb k)
      else None)"
proof (induction sched arbitrary: fb)
  case Nil
  show ?case by simp
next
  case (Cons i sched)
  show ?case
  proof (cases "f i")
    case None
    then show ?thesis by auto
  next
    case (Some res)
    obtain offset p cs where res: "res = ((offset, p), cs)"
      by (cases res) auto
    with Some assms have "offset = i" by blast
    with Some res show ?thesis
      by (auto simp: Cons.IH fun_eq_iff)
  qed
qed

lemma run_pixels_same_set:
  assumes "\<And>i offset p cs. f i = Some ((offset, p), cs) \<Longrightarrow> offset = i"
    and "set sched = set sched'"
  shows "run_pixels f sched fb = run_pixels f sched' fb"
  by (simp add: run_pixels_closed [of f, OF assms(1)] assms(2))

lemma run_pixels_cong:
  assumes "\<And>i. map_option fst (f i) = map_option fst (f' i)"
  shows "run_pixels f sched fb = run_pixels f' sched fb"
proof (induction sched arbitrary: fb)
  case Nil
  show ?case by simp
next
  case (Cons i sched)
  show ?case
  proof (cases "f i")
    case None
    with assms [of i] show ?thesis by simp
  next
    case (Some res)
    obtain offset p cs where res: "res = ((offset, p), cs)"
      by (cases res) auto
    with Some assms [of i] obtain cs' where "f' i = Some ((offset, p), cs')"
      by (cases "f' i") auto
    with Some res show ?thesis
      by (simp only: run_pixels.simps option.case prod.case Cons.IH)
  qed
qed

lemma frame_pixel_shadows_disabled:
  assumes "\<not> m_ShadowsEnabled R"
  shows "map_option fst (frame_pixel R C (pScene\<lparr>DoesHit := occluder\<rparr>) i) =
      map_option fst (frame_pixel R C (pScene\<lparr>DoesHit := occluder'\<rparr>) i)"
  unfolding frame_pixel_def Let_def
  using RenderPixel_shadows_disabled [OF assms] by simp

lemma Render_sequential_shadows_disabled:
  assumes "\<not> m_ShadowsEnabled R"
  shows "Render_sequential R C (pScene\<lparr>DoesHit := occluder\<rparr>) =
      Render_sequential R C (pScene\<lparr>DoesHit := occluder'\<rparr>)"
proof -
  have "run_pixels (frame_pixel R C (pScene\<lparr>DoesHit := occluder\<rparr>)) [0..<numPixels R]
      (m_pBufferPixels R) =
    run_pixels (frame_pixel R C (pScene\<lparr>DoesHit := occluder'\<rparr>)) [0..<numPixels R]
      (m_pBufferPixels R)"
    by (rule run_pixels_cong) (rule frame_pixel_shadows_disabled [OF assms])
  then show ?thesis
    by (simp only: Render_sequential_def pixel_loop_run_pixels)
qed

lemma Render_parallel_for_shadows_disabled:
  assumes "\<not> m_ShadowsEnabled R"
  shows "Render_parallel_for R C (pScene\<lparr>DoesHit := occluder\<rparr>) res \<longleftrightarrow>
      Render_parallel_for R C (pScene\<lparr>DoesHit := occluder'\<rparr>) res"
proof -
  have "run_pixels (frame_pixel R C (pScene\<lparr>DoesHit := occluder\<rparr>)) sched
      (m_pBufferPixels R) =
    run_pixels (frame_pixel R C (pScene\<lparr>DoesHit := occluder'\<rparr>)) sched
      (m_pBufferPixels R)" for sched
    by (rule run_pixels_cong) (rule frame_pixel_shadows_disabled [OF assms])
  then show ?thesis
    by (simp only: Render_parallel_for_def)
qed

lemma Render_async_shadows_disabled:
  assumes "\<not> m_ShadowsEnabled R"
  shows "Render_async R C (pScene\<lparr>DoesHit := occluder\<rparr>) numCores res \<longleftrightarrow>
      Render_async R C (pScene\<lparr>DoesHit := occluder'\<rparr>) numCores res"
proof -
  have "run_pixels (frame_pixel R C (pScene\<lparr>DoesHit := occluder\<rparr>)) sched
      (m_pBufferPixels R) =
    run_pixels (frame_pixel R C (pScene\<lparr>DoesHit := occluder'\<rparr>)) sched
      (m_pBufferPixels R)" for sched
    by (rule run_pixels_cong) (rule frame_pixel_shadows_disabled [OF assms])
  then show ?thesis
    by (simp only: Render_async_def)
qed

lemma run_frame_same_mset:
  assumes "mset sched = mset sched'"
  shows "run_pixels (frame_pixel R C pScene) sched fb =
         run_pixels (frame_pixel R C pScene) sched' fb"
proof (rule run_pixels_same_set)
  show "offset = i" if "frame_pixel R C pScene i = Some ((offset, p), cs)" for i offset p cs
    using that by (rule frame_pixel_offset)
  from assms show "set sched = set sched'"
    by (rule mset_eq_setD)
qed

lemma mset_concat_update:
  assumes "k < length tasks" and "tasks ! k = i # rest"
  shows "mset (concat tasks) = add_mset i (mset (concat (tasks[k := rest])))"
proof -
  have "tasks = take k tasks @ (i # rest) # drop (Suc k) tasks"
    using assms by (metis id_take_nth_drop)
  moreover have "tasks[k := rest] = take k tasks @ rest # drop (Suc k) tasks"
    using assms(1) by (rule upd_conv_take_nth_drop)
  ultimately show ?thesis
    by (metis concat.simps(2) concat_append mset.simps(2) union_mset_add_mset_right
        append_Cons mset_append)
qed

lemma interleaving_mset:
  assumes "interleaving tasks sched"
  shows "mset sched = mset (concat tasks)"
  using assms
proof (induction rule: interleaving.induct)
  case (finished tasks)
  then show ?case by simp
next
  case (next_pixel k tasks i rest sched)
  then show ?case
    by (simp add: mset_concat_update)
qed

lemma interleaving_idle_task:
  assumes "interleaving tasks sched"
  shows "interleaving ([] # tasks) sched"
  using assms
proof (induction rule: interleaving.induct)
  case (finished tasks)
  then show ?case by (simp add: interleaving.finished)
next
  case (next_pixel k tasks i rest sched)
  from next_pixel.hyps(1,2) next_pixel.IH show ?case
    using interleaving.next_pixel [of "Suc k" "[] # tasks" i rest sched] by simp
qed

lemma interleaving_first_task:
  assumes "interleaving tasks sched"
  shows "interleaving (task # tasks) (task @ sched)"
proof (induction task)
  case Nil
  from assms show ?case by (simp add: interleaving_idle_task)
next
  case (Cons i rest)
  then show ?case
    using interleaving.next_pixel [of 0 "(i # rest) # tasks" i rest "rest @ sched"] by simp
qed

lemma interleaving_concat: "interleaving tasks (concat tasks)"
proof (induction tasks)
  case Nil
  show ?case by (simp add: interleaving.finished)
next
  case (Cons task tasks)
  then show ?case by (simp add: interleaving_first_task)
qed

lemma async_tasks_done:
  assumes "\<not> coreId < numCores"
  shows "async_tasks coreId numCores q u cur = []"
  using assms by (subst async_tasks.simps) simp

lemma async_tasks_step:
  assumes "coreId < numCores" and "taskSize = q + (if 0 < u then 1 else 0)"
    and "cur + taskSize < 2 ^ 32"
  shows "async_tasks coreId numCores q u cur =
     (cur, cur + taskSize) # async_tasks (coreId + 1) numCores q (u - 1) (cur + taskSize)"
proof (cases "0 < u")
  case True
  with assms(2,3) have "(q + 1) mod 2 ^ 32 = q + 1"
    and "(cur + (q + 1)) mod 2 ^ 32 = cur + (q + 1)"
    by simp_all
  with True assms(1,2) show ?thesis
    by (subst async_tasks.simps) (simp add: Let_def)
next
  case False
  with assms(2,3) have "(cur + q) mod 2 ^ 32 = cur + q"
    by simp
  with False assms(1,2) show ?thesis
    by (subst async_tasks.simps) (simp add: Let_def)
qed

lemma async_tasks_cover:
  assumes "numCores - coreId = d" and "u \<le> d" and "cur + d * q + u < 2 ^ 32"
  shows "concat (map task_indices (async_tasks coreId numCores q u cur)) =
         [cur..<cur + d * q + u]"
  using assms
proof (induction d arbitrary: coreId u cur)
  case 0
  then show ?case by (simp add: async_tasks_done)
next
  case (Suc d)
  define taskSize where "taskSize = q + (if 0 < u then 1 else 0)"
  define total where "total = cur + Suc d * q + u"
  from Suc.prems have core: "coreId < numCores" and d: "numCores - (coreId + 1) = d"
    by simp_all
  have split: "total = (cur + taskSize) + d * q + (u - 1)"
    by (cases "0 < u") (simp_all add: total_def taskSize_def)
  from Suc.prems(3) have bound: "total < 2 ^ 32"
    by (simp add: total_def)
  then have fit: "cur + taskSize < 2 ^ 32"
    by (simp add: split)
  from Suc.prems(2) have "u - 1 \<le> d"
    by simp
  moreover from bound have "(cur + taskSize) + d * q + (u - 1) < 2 ^ 32"
    by (simp only: split)
  ultimately
  have "concat (map task_indices (async_tasks (coreId + 1) numCores q (u - 1) (cur + taskSize))) =
      [cur + taskSize..<(cur + taskSize) + d * q + (u - 1)]"
    by (rule Suc.IH [OF d])
  then have rest: "concat (map task_indices
      (async_tasks (coreId + 1) numCores q (u - 1) (cur + taskSize))) = [cur + taskSize..<total]"
    by (simp only: split)
  have "cur + taskSize \<le> total"
    by (simp add: split)
  then have "[cur..<cur + taskSize] @ [cur + taskSize..<total] = [cur..<total]"
    using upt_add_eq_append [of cur "cur + taskSize" "total - (cur + taskSize)"] by simp
  with rest have "concat (map task_indices (async_tasks coreId numCores q u cur)) =
      [cur..<total]"
    by (simp add: async_tasks_step [OF core taskSize_def fit] task_indices_def)
  then show ?case
    by (simp only: total_def)
qed

lemma async_tasks_sizes:
  assumes "numCores - coreId = d" and "u \<le> d" and "cur + d * q + u < 2 ^ 32"
  shows "map (length \<circ> task_indices) (async_tasks coreId numCores q u cur) =
         map (\<lambda>j. q + (if j < u then 1 else 0)) [0..<d]"
  using assms
proof (induction d arbitrary: coreId u cur)
  case 0
  then show ?case by (simp add: async_tasks_done)
next
  case (Suc d)
  define taskSize where "taskSize = q + (if 0 < u then 1 else 0)"
  define total where "total = cur + Suc d * q + u"
  from Suc.prems have core: "coreId < numCores" and d: "numCores - (coreId + 1) = d"
    by simp_all
  have split: "total = (cur + taskSize) + d * q + (u - 1)"
    by (cases "0 < u") (simp_all add: total_def taskSize_def)
  from Suc.prems(3) have bound: "total < 2 ^ 32"
    by (simp add: total_def)
  then have fit: "cur + taskSize < 2 ^ 32"
    by (simp add: split)
  from Suc.prems(2) have "u - 1 \<le> d"
    by simp
  moreover from bound have "(cur + taskSize) + d * q + (u - 1) < 2 ^ 32"
    by (simp only: split)
  ultimately
  have rest: "map (length \<circ> task_indices)
      (async_tasks (coreId + 1) numCores q (u - 1) (cur + taskSize)) =
      map (\<lambda>j. q + (if j < u - 1 then 1 else 0)) [0..<d]"
    by (rule Suc.IH [OF d])
  have "[0..<Suc d] = 0 # map Suc [0..<d]"
    by (simp only: upt_conv_Cons zero_less_Suc map_Suc_upt)
  then have "map (\<lambda>j. q + (if j < u then 1 else 0)) [0..<Suc d] =
      taskSize # map (\<lambda>j. q + (if j < u - 1 then 1 else 0)) [0..<d]"
    by (simp add: taskSize_def less_diff_conv comp_def del: upt_Suc)
  moreover have "(length \<circ> task_indices) (cur, cur + taskSize) = taskSize"
    by (simp add: task_indices_def)
  ultimately show ?case
    by (simp only: async_tasks_step [OF core taskSize_def fit] list.map rest)
qed

section \<open>Evaluating the scene with one wall\<close>

lemmas vector_simps =
  Normalize_def Let_def Magnitude_def Dot_def Vector3_div_def Vector3_minus_def
  Normalized_def Vector3_plus_def Vector3_scale_def Vector3_uminus_def

lemmas color_simps =
  ColorRGB_zero_def ColorRGB_plus_def ColorRGB_times_def ColorRGB_scale_def
  pixel_value_def MaxToOne_def to_uint8_def

lemma wall_view_ray:
  "view_ray wall_renderer wall_collaborators px py 0 a wall_camera =
     \<lparr>Ray.origin = \<lparr>x = 0, y = 0, z = 0\<rparr>, direction = \<lparr>x = 0, y = 0, z = 1\<rparr>,
      min_bound = 0, max_bound = 1000\<rparr>"
  by (simp add: view_ray_def wall_renderer_def wall_collaborators_def wall_camera_def
      Normalized_def Magnitude_def Dot_def Vector3_div_def)

lemma wall_RenderPixel:
  "RenderPixel wall_renderer wall_collaborators wall_scene i 0 a wall_camera
     (GetLights wall_scene) (GetMaterials wall_scene) =
   Some ((i mod 2 + i div 2 * 2, 16724736),
      [GetClosestHit_call
         \<lparr>Ray.origin = \<lparr>x = 0, y = 0, z = 0\<rparr>, direction = \<lparr>x = 0, y = 0, z = 1\<rparr>,
          min_bound = 0, max_bound = 1000\<rparr>,
       GetDirectionToLight_call \<lparr>x = 0, y = 0, z = 3\<rparr> \<lparr>x = 0, y = 0, z = 5\<rparr>,
       DoesHit_call
         \<lparr>Ray.origin = \<lparr>x = 0, y = 0, z = 499 / 100\<rparr>, direction = \<lparr>x = 0, y = 0, z = - 1\<rparr>,
          min_bound = 1 / 100, max_bound = 2\<rparr>,
       GetRadiance_call \<lparr>x = 0, y = 0, z = 3\<rparr> \<lparr>x = 0, y = 0, z = 5\<rparr>,
       Shade_call 0 wall_hit \<lparr>x = 0, y = 0, z = - 1\<rparr> \<lparr>x = 0, y = 0, z = 1\<rparr>])"
  apply (simp add: RenderPixel_def wall_view_ray)
  apply (simp add: wall_renderer_def wall_scene_def wall_hit_def initial_state_def
      light_body_def wall_collaborators_def vector_simps color_simps)
  done

lemma wall_frame_pixel:
  "frame_pixel wall_renderer wall_collaborators wall_scene i =
     RenderPixel wall_renderer wall_collaborators wall_scene i 0 1 wall_camera
     (GetLights wall_scene) (GetMaterials wall_scene)"
proof -
  have "(GetCamera wall_scene)\<lparr>cameraToWorld :=
      CalculateCameraToWorld wall_collaborators (GetCamera wall_scene)\<rparr> = wall_camera"
    by (simp add: wall_scene_def wall_collaborators_def wall_camera_def)
  moreover have "fovAngle wall_camera = 0"
    by (simp add: wall_camera_def)
  moreover have "m_Width wall_renderer = 2" "m_Height wall_renderer = 2"
    by (simp_all add: wall_renderer_def)
  ultimately show ?thesis
    by (simp add: frame_pixel_def)
qed

lemma wall_running_color:
  "running_color wall_renderer wall_collaborators wall_scene [\<lparr>r = 1, g = 1 / 5, b = 0\<rparr>]
     viewRay wall_hit [\<lparr>x = 0, y = 0, z = 3\<rparr>] = Some \<lparr>r = 1, g = 1 / 5, b = 0\<rparr>"
  by (simp add: running_color_def wall_renderer_def wall_scene_def wall_hit_def
      initial_state_def light_body_def wall_collaborators_def vector_simps color_simps)

lemma wall_front_facing:
  "front_facing wall_collaborators wall_hit \<lparr>x = 0, y = 0, z = 3\<rparr>"
  by (simp add: front_facing_def light_dir_def wall_hit_def wall_collaborators_def vector_simps)

lemma wall_light_term:
  "light_term Combined wall_collaborators [\<lparr>r = 1, g = 1 / 5, b = 0\<rparr>] viewRay wall_hit
     \<lparr>x = 0, y = 0, z = 3\<rparr> = \<lparr>r = 1, g = 1 / 5, b = 0\<rparr>"
  by (simp add: light_term_def light_dir_def wall_hit_def wall_collaborators_def
      vector_simps color_simps)

lemma wall_RenderPixel_shadows_disabled:
  "map_option fst
     (RenderPixel (wall_renderer\<lparr>m_ShadowsEnabled := False\<rparr>) wall_collaborators
        (wall_scene\<lparr>DoesHit := \<lambda>ray. False\<rparr>) 3 0 1 wall_camera
        (GetLights wall_scene) (GetMaterials wall_scene)) = Some (3, 16724736)"
proof -
  have "view_ray (wall_renderer\<lparr>m_ShadowsEnabled := False\<rparr>) wall_collaborators px py 0 1
      wall_camera = view_ray wall_renderer wall_collaborators px py 0 1 wall_camera" for px py
    by (simp add: view_ray_def)
  then show ?thesis
    apply (simp add: RenderPixel_def wall_view_ray)
    apply (simp add: wall_renderer_def wall_scene_def wall_hit_def initial_state_def
        light_body_def wall_collaborators_def vector_simps color_simps)
    done
qed

lemma wall_Render_sequential:
  "Render_sequential wall_renderer wall_collaborators wall_scene =
     Some (wall_renderer\<lparr>m_pBufferPixels := \<lambda>k. if k < 4 then 16724736 else 0\<rparr>)"
proof -
  have n: "numPixels wall_renderer = 4"
    by (simp add: numPixels_def wall_renderer_def)
  have px: "frame_pixel wall_renderer wall_collaborators wall_scene i \<noteq> None"
    "snd (fst (the (frame_pixel wall_renderer wall_collaborators wall_scene i))) = 16724736"
    for i
    by (simp_all add: wall_frame_pixel wall_RenderPixel)
  have fb: "m_pBufferPixels wall_renderer = (\<lambda>k. 0)"
    by (simp add: wall_renderer_def)
  have "run_pixels (frame_pixel wall_renderer wall_collaborators wall_scene) [0..<4]
      (m_pBufferPixels wall_renderer) =
    (if \<forall>i \<in> set [0..<4].
          frame_pixel wall_renderer wall_collaborators wall_scene i \<noteq> None
     then Some (\<lambda>k. if k \<in> set [0..<4]
       then snd (fst (the (frame_pixel wall_renderer wall_collaborators wall_scene k)))
       else m_pBufferPixels wall_renderer k)
     else None)"
    by (rule run_pixels_closed) (rule frame_pixel_offset)
  then have "run_pixels (frame_pixel wall_renderer wall_collaborators wall_scene) [0..<4]
      (m_pBufferPixels wall_renderer) = Some (\<lambda>k. if k < 4 then 16724736 else 0)"
    by (simp add: px fb cong: if_cong)
  then show ?thesis
    by (simp add: Render_sequential_def pixel_loop_run_pixels n frame_done_def)
qed

lemma wall_centre_view_ray:
  "view_ray one_pixel_renderer wall_collaborators 0 0 1 1
     wall_camera =
   \<lparr>Ray.origin = \<lparr>x = 0, y = 0, z = 0\<rparr>, direction = \<lparr>x = 0, y = 0, z = 1\<rparr>,
    min_bound = 0, max_bound = 1000\<rparr>"
  by (simp add: view_ray_def one_pixel_renderer_def wall_collaborators_def wall_camera_def
      vector_simps)


lemma wall_centre_pixel:
  "RenderPixel one_pixel_renderer wall_collaborators
     wall_scene 0 1 1 wall_camera [\<lparr>x = 0, y = 0, z = 3\<rparr>] [\<lparr>r = 1, g = 1 / 5, b = 0\<rparr>] =
   Some ((0, 16724736),
      [GetClosestHit_call
         \<lparr>Ray.origin = \<lparr>x = 0, y = 0, z = 0\<rparr>, direction = \<lparr>x = 0, y = 0, z = 1\<rparr>,
          min_bound = 0, max_bound = 1000\<rparr>,
       GetDirectionToLight_call \<lparr>x = 0, y = 0, z = 3\<rparr> \<lparr>x = 0, y = 0, z = 5\<rparr>,
       DoesHit_call
         \<lparr>Ray.origin = \<lparr>x = 0, y = 0, z = 499 / 100\<rparr>, direction = \<lparr>x = 0, y = 0, z = - 1\<rparr>,
          min_bound = 1 / 100, max_bound = 2\<rparr>,
       GetRadiance_call \<lparr>x = 0, y = 0, z = 3\<rparr> \<lparr>x = 0, y = 0, z = 5\<rparr>,
       Shade_call 0 wall_hit \<lparr>x = 0, y = 0, z = - 1\<rparr> \<lparr>x = 0, y = 0, z = 1\<rparr>])"
  apply (simp add: RenderPixel_def wall_centre_view_ray)
  apply (simp add: one_pixel_renderer_def wall_scene_def wall_hit_def initial_state_def
      light_body_def wall_collaborators_def vector_simps color_simps)
  done

section \<open>The claims of the specification\<close>

text \<open>
  C1, as the code has it: for a pixel whose view ray hits a surface, every light that
  passes both tests has its call of \<^verbatim>\<open>Shade\<close>, with the hit record, the direction to
  the light (normalized in place, and once more by \<^verbatim>\<open>Normalized\<close>) and the normalized
  direction of the view ray, which is not negated; and \<^verbatim>\<open>Shade\<close> is called with no
  other arguments. The claim as stated, with the negated view direction, fails on the
  scene with one wall and a window of one pixel: there the view direction handed to
  \<^verbatim>\<open>Shade\<close> is \<open>(0, 0, 1)\<close>, and the normalized negated view direction is
  \<open>(0, 0, -1)\<close>.
\<close>

theorem Shade_arguments:
  assumes "RenderPixel R C pScene pixelIndex fov aspectRatio camera lights materials =
             Some (w, cs)"
    and "viewRay = view_ray R C (pixelIndex mod m_Width R) (pixelIndex div m_Width R)
                     fov aspectRatio camera"
    and "h = GetClosestHit pScene viewRay"
    and "didHit h"
  shows "(\<forall>L \<in> set lights. contributes R C pScene h L \<longrightarrow>
            Shade_call (materialIndex h) h
              (Normalized (Normalized (GetDirectionToLight C L (HitRecord.origin h))))
              (Normalized (direction viewRay)) \<in> set cs) \<and>
         (\<forall>k h' l v. Shade_call k h' l v \<in> set cs \<longrightarrow>
            k = materialIndex h \<and> h' = h \<and> v = Normalized (direction viewRay) \<and>
            (\<exists>L \<in> set lights. contributes R C pScene h L \<and>
               l = Normalized (Normalized (GetDirectionToLight C L (HitRecord.origin h)))))"
proof -
  have cs: "cs = GetClosestHit_call viewRay #
      concat (map (light_calls R C pScene viewRay h) lights)"
    using assms by (rule RenderPixel_calls)
  have made: "Shade_call k h' l v \<in> set (light_calls R C pScene viewRay h L) \<longleftrightarrow>
      contributes R C pScene h L \<and> k = materialIndex h \<and> h' = h \<and>
      l = Normalized (Normalized (GetDirectionToLight C L (HitRecord.origin h))) \<and>
      v = Normalized (direction viewRay)" for k h' l v L
    by (auto simp: light_calls_def contributes_def light_dir_def snd_Normalize)
  show ?thesis
    unfolding cs by (auto simp: made)
qed

theorem Shade_arguments_witness:
  "RenderPixel wall_renderer wall_collaborators wall_scene 3 0 1 wall_camera
     (GetLights wall_scene) (GetMaterials wall_scene) \<noteq> None \<and>
   didHit wall_hit \<and>
   Shade_call 0 wall_hit \<lparr>x = 0, y = 0, z = - 1\<rparr> \<lparr>x = 0, y = 0, z = 1\<rparr> \<in>
     set (snd (the (RenderPixel wall_renderer wall_collaborators wall_scene 3 0 1 wall_camera
       (GetLights wall_scene) (GetMaterials wall_scene))))"
proof -
  define viewRay where "viewRay = view_ray wall_renderer wall_collaborators
    (3 mod m_Width wall_renderer) (3 div m_Width wall_renderer) 0 1 wall_camera"
  have v: "viewRay = \<lparr>Ray.origin = \<lparr>x = 0, y = 0, z = 0\<rparr>, direction = \<lparr>x = 0, y = 0, z = 1\<rparr>,
      min_bound = 0, max_bound = 1000\<rparr>"
    by (simp add: viewRay_def wall_view_ray)
  have h: "wall_hit = GetClosestHit wall_scene viewRay"
    by (simp add: v wall_scene_def)
  have hit: "didHit wall_hit"
    by (simp add: wall_hit_def)
  obtain w cs where res: "RenderPixel wall_renderer wall_collaborators wall_scene 3 0 1
      wall_camera (GetLights wall_scene) (GetMaterials wall_scene) = Some (w, cs)"
    by (simp add: wall_RenderPixel)
  have lit: "contributes wall_renderer wall_collaborators wall_scene wall_hit
      \<lparr>x = 0, y = 0, z = 3\<rparr>"
    using wall_front_facing by (simp add: contributes_def shadowed_def wall_scene_def)
  have L: "\<lparr>x = 0, y = 0, z = 3\<rparr> \<in> set (GetLights wall_scene)"
    by (simp add: wall_scene_def)
  have args: "materialIndex wall_hit = 0"
    "Normalized (Normalized (GetDirectionToLight wall_collaborators \<lparr>x = 0, y = 0, z = 3\<rparr>
        (HitRecord.origin wall_hit))) = \<lparr>x = 0, y = 0, z = - 1\<rparr>"
    "Normalized (direction viewRay) = \<lparr>x = 0, y = 0, z = 1\<rparr>"
    by (simp_all add: v wall_hit_def wall_collaborators_def vector_simps)
  from Shade_arguments [OF res viewRay_def h hit] L lit
  have "Shade_call (materialIndex wall_hit) wall_hit
      (Normalized (Normalized (GetDirectionToLight wall_collaborators \<lparr>x = 0, y = 0, z = 3\<rparr>
        (HitRecord.origin wall_hit))))
      (Normalized (direction viewRay)) \<in> set cs"
    by blast
  then have "Shade_call 0 wall_hit \<lparr>x = 0, y = 0, z = - 1\<rparr> \<lparr>x = 0, y = 0, z = 1\<rparr> \<in> set cs"
    by (simp only: args)
  with res hit show ?thesis
    by simp
qed

theorem Shade_arguments_counterexample:
  "didHit (GetClosestHit wall_scene
     (view_ray one_pixel_renderer wall_collaborators 0 0 1 1 wall_camera)) \<and>
   contributes one_pixel_renderer wall_collaborators wall_scene wall_hit
     \<lparr>x = 0, y = 0, z = 3\<rparr> \<and>
   RenderPixel one_pixel_renderer wall_collaborators wall_scene 0 1 1 wall_camera
     [\<lparr>x = 0, y = 0, z = 3\<rparr>] [\<lparr>r = 1, g = 1 / 5, b = 0\<rparr>] =
   Some ((0, 16724736),
      [GetClosestHit_call
         \<lparr>Ray.origin = \<lparr>x = 0, y = 0, z = 0\<rparr>, direction = \<lparr>x = 0, y = 0, z = 1\<rparr>,
          min_bound = 0, max_bound = 1000\<rparr>,
       GetDirectionToLight_call \<lparr>x = 0, y = 0, z = 3\<rparr> \<lparr>x = 0, y = 0, z = 5\<rparr>,
       DoesHit_call
         \<lparr>Ray.origin = \<lparr>x = 0, y = 0, z = 499 / 100\<rparr>, direction = \<lparr>x = 0, y = 0, z = - 1\<rparr>,
          min_bound = 1 / 100, max_bound = 2\<rparr>,
       GetRadiance_call \<lparr>x = 0, y = 0, z = 3\<rparr> \<lparr>x = 0, y = 0, z = 5\<rparr>,
       Shade_call 0 wall_hit \<lparr>x = 0, y = 0, z = - 1\<rparr> \<lparr>x = 0, y = 0, z = 1\<rparr>]) \<and>
   Normalized (Vector3_uminus
     (direction (view_ray one_pixel_renderer wall_collaborators 0 0 1 1 wall_camera))) =
   \<lparr>x = 0, y = 0, z = - 1\<rparr> \<and>
   Normalized (Vector3_uminus
     (direction (view_ray one_pixel_renderer wall_collaborators 0 0 1 1 wall_camera))) \<noteq>
   \<lparr>x = 0, y = 0, z = 1\<rparr>"
proof -
  have lit: "contributes one_pixel_renderer wall_collaborators wall_scene wall_hit
      \<lparr>x = 0, y = 0, z = 3\<rparr>"
    using wall_front_facing
    by (simp add: contributes_def shadowed_def wall_scene_def one_pixel_renderer_def)
  have hit: "didHit (GetClosestHit wall_scene
     (view_ray one_pixel_renderer wall_collaborators 0 0 1 1 wall_camera))"
    by (simp add: wall_centre_view_ray wall_scene_def wall_hit_def)
  have negated: "Normalized (Vector3_uminus
     (direction (view_ray one_pixel_renderer wall_collaborators 0 0 1 1 wall_camera))) =
     \<lparr>x = 0, y = 0, z = - 1\<rparr>"
    by (simp add: wall_centre_view_ray vector_simps)
  have "\<lparr>x = 0, y = 0, z = - 1\<rparr> \<noteq> \<lparr>x = 0, y = 0, z = 1 :: real\<rparr>"
    by simp
  with lit hit negated wall_centre_pixel show ?thesis
    by (simp only: simp_thms)
qed

text \<open>
  C2: for a renderer whose width times height fits an int, and a positive number of
  hardware threads, the three strategies end with the same renderer, that is the same
  pixel memory. The sequential loop runs \<^verbatim>\<open>RenderPixel\<close> for the indices from 0 up to
  width times height, in order. Every run of the tasks of the task-partitioned strategy,
  and every run of the parallel loop, ends as the sequential loop does. The tasks are
  contiguous: put one after the other they are the indices from 0 up to width times
  height, each once; the task of core \<open>coreId\<close> has \<^verbatim>\<open>numPixels / numCores\<close> indices, and
  one more when \<open>coreId\<close> is below \<^verbatim>\<open>numPixels % numCores\<close>; and every interleaving of
  the tasks runs each index exactly once.
\<close>

theorem Render_strategies_agree:
  assumes "0 < numCores" and "m_Width R * m_Height R < 2 ^ 31"
  shows
    "Render_sequential R C pScene =
       frame_done R (run_pixels (frame_pixel R C pScene) [0..<m_Width R * m_Height R]
         (m_pBufferPixels R)) \<and>
     (Render_async R C pScene numCores res \<longleftrightarrow> res = Render_sequential R C pScene) \<and>
     (Render_parallel_for R C pScene res \<longleftrightarrow> res = Render_sequential R C pScene) \<and>
     concat (map task_indices
       (async_tasks 0 numCores (m_Width R * m_Height R div numCores)
          (m_Width R * m_Height R mod numCores) 0)) = [0..<m_Width R * m_Height R] \<and>
     map (length \<circ> task_indices)
       (async_tasks 0 numCores (m_Width R * m_Height R div numCores)
          (m_Width R * m_Height R mod numCores) 0) =
     map (\<lambda>coreId. m_Width R * m_Height R div numCores +
            (if coreId < m_Width R * m_Height R mod numCores then 1 else 0)) [0..<numCores] \<and>
     (\<forall>sched.
        interleaving
          (map task_indices
             (async_tasks 0 numCores (m_Width R * m_Height R div numCores)
                (m_Width R * m_Height R mod numCores) 0)) sched \<longrightarrow>
        mset sched = mset [0..<m_Width R * m_Height R])"
proof -
  define n where "n = m_Width R * m_Height R"
  define tasks where "tasks = async_tasks 0 numCores (n div numCores) (n mod numCores) 0"
  from assms(2) have n: "numPixels R = n" and small: "n < 2 ^ 32"
    by (simp_all add: numPixels_def n_def)
  have whole: "0 + numCores * (n div numCores) + n mod numCores = n"
    by simp
  have rem: "n mod numCores \<le> numCores"
    using assms(1) by (simp add: less_imp_le)
  have fit: "0 + numCores * (n div numCores) + n mod numCores < 2 ^ 32"
    using small by (simp only: whole)
  have cover: "concat (map task_indices tasks) = [0..<n]"
    using async_tasks_cover [OF _ rem fit, of numCores 0] by (simp add: tasks_def)
  have sizes: "map (length \<circ> task_indices) tasks =
      map (\<lambda>coreId. n div numCores + (if coreId < n mod numCores then 1 else 0)) [0..<numCores]"
    using async_tasks_sizes [OF _ rem fit, of numCores 0] by (simp add: tasks_def)
  have once: "mset sched = mset [0..<n]" if "interleaving (map task_indices tasks) sched"
    for sched
    using interleaving_mset [OF that] by (simp only: cover)
  have seq: "Render_sequential R C pScene =
      frame_done R (run_pixels (frame_pixel R C pScene) [0..<n] (m_pBufferPixels R))"
    by (simp only: Render_sequential_def pixel_loop_run_pixels n)
  have same: "frame_done R (run_pixels (frame_pixel R C pScene) sched (m_pBufferPixels R)) =
      Render_sequential R C pScene" if "mset sched = mset [0..<n]" for sched
    by (simp only: seq run_frame_same_mset [OF that])
  have async: "Render_async R C pScene numCores res \<longleftrightarrow> res = Render_sequential R C pScene"
  proof
    assume "Render_async R C pScene numCores res"
    with assms(1) have "\<exists>sched. interleaving (map task_indices tasks) sched \<and>
        res = frame_done R (run_pixels (frame_pixel R C pScene) sched (m_pBufferPixels R))"
      by (simp add: Render_async_def Let_def n tasks_def)
    then obtain sched where "interleaving (map task_indices tasks) sched"
      and "res = frame_done R (run_pixels (frame_pixel R C pScene) sched (m_pBufferPixels R))"
      by blast
    with once [of sched] same [of sched] show "res = Render_sequential R C pScene"
      by simp
  next
    assume "res = Render_sequential R C pScene"
    moreover have "interleaving (map task_indices tasks) (concat (map task_indices tasks))"
      by (rule interleaving_concat)
    ultimately have "interleaving (map task_indices tasks) [0..<n] \<and>
        res = frame_done R (run_pixels (frame_pixel R C pScene) [0..<n] (m_pBufferPixels R))"
      by (simp only: cover seq)
    then have "\<exists>sched. interleaving (map task_indices tasks) sched \<and>
        res = frame_done R (run_pixels (frame_pixel R C pScene) sched (m_pBufferPixels R))"
      by (rule exI)
    with assms(1) show "Render_async R C pScene numCores res"
      by (simp add: Render_async_def Let_def n tasks_def)
  qed
  have par: "Render_parallel_for R C pScene res \<longleftrightarrow> res = Render_sequential R C pScene"
  proof
    assume "Render_parallel_for R C pScene res"
    then obtain sched where "mset sched = mset [0..<n]"
      and "res = frame_done R (run_pixels (frame_pixel R C pScene) sched (m_pBufferPixels R))"
      by (auto simp: Render_parallel_for_def n)
    with same [of sched] show "res = Render_sequential R C pScene"
      by simp
  next
    assume "res = Render_sequential R C pScene"
    then have "mset [0..<n] = mset [0..<n] \<and>
        res = frame_done R (run_pixels (frame_pixel R C pScene) [0..<n] (m_pBufferPixels R))"
      by (simp only: seq)
    then have "\<exists>sched. mset sched = mset [0..<n] \<and>
        res = frame_done R (run_pixels (frame_pixel R C pScene) sched (m_pBufferPixels R))"
      by (rule exI)
    then show "Render_parallel_for R C pScene res"
      by (simp add: Render_parallel_for_def n)
  qed
  from once have "\<forall>sched. interleaving (map task_indices tasks) sched \<longrightarrow>
      mset sched = mset [0..<n]"
    by blast
  with seq async par cover sizes show ?thesis
    unfolding n_def tasks_def by (intro conjI)
qed

theorem Render_strategies_agree_witness:
  "(0::nat) < 3 \<and> m_Width wall_renderer * m_Height wall_renderer < 2 ^ 31 \<and>
   Render_async wall_renderer wall_collaborators wall_scene 3
     (Some (wall_renderer\<lparr>m_pBufferPixels := \<lambda>k. if k < 4 then 16724736 else 0\<rparr>)) \<and>
   Render_parallel_for wall_renderer wall_collaborators wall_scene
     (Some (wall_renderer\<lparr>m_pBufferPixels := \<lambda>k. if k < 4 then 16724736 else 0\<rparr>)) \<and>
   concat (map task_indices (async_tasks 0 3 (4 div 3) (4 mod 3) 0)) = [0..<4] \<and>
   map (length \<circ> task_indices) (async_tasks 0 3 (4 div 3) (4 mod 3) 0) = [2, 1, 1]"
proof -
  have cores: "(0::nat) < 3"
    by simp
  have dims: "m_Width wall_renderer * m_Height wall_renderer < 2 ^ 31"
    by (simp add: wall_renderer_def)
  have n: "m_Width wall_renderer * m_Height wall_renderer = 4"
    by (simp add: wall_renderer_def)
  have sizes: "map (\<lambda>coreId. 4 div 3 + (if coreId < 4 mod 3 then 1 else 0)) [0..<3] =
      [2, 1, 1::nat]"
    by (simp add: upt_conv_Cons)
  from Render_strategies_agree [OF cores dims, of wall_collaborators wall_scene
      "Render_sequential wall_renderer wall_collaborators wall_scene"]
  have "Render_async wall_renderer wall_collaborators wall_scene 3
      (Render_sequential wall_renderer wall_collaborators wall_scene)"
    and "Render_parallel_for wall_renderer wall_collaborators wall_scene
      (Render_sequential wall_renderer wall_collaborators wall_scene)"
    and "concat (map task_indices (async_tasks 0 3 (4 div 3) (4 mod 3) 0)) = [0..<4]"
    and "map (length \<circ> task_indices) (async_tasks 0 3 (4 div 3) (4 mod 3) 0) =
      map (\<lambda>coreId. 4 div 3 + (if coreId < 4 mod 3 then 1 else 0)) [0..<3]"
    unfolding n by blast+
  with cores dims show ?thesis
    by (simp only: wall_Render_sequential sizes simp_thms)
qed

text \<open>
  C3: when the dot product of the surface normal and the direction to a light is negative,
  the test of the first \<^verbatim>\<open>continue\<close> (on the direction after it was normalized in place)
  is taken: the body of the loop leaves \<^verbatim>\<open>finalColor\<close> as it was and makes no call after
  \<^verbatim>\<open>GetDirectionToLight\<close>, so no shadow test; the running colour after the light is the
  one before it; and the pixel written with the light in the scene is the pixel written
  without it. The renderer \<open>R\<close> is any renderer, so this holds in each of the four
  lighting modes and with shadows enabled or not.
\<close>

theorem backfacing_light_skipped:
  assumes "Dot (normal h) (GetDirectionToLight C L (HitRecord.origin h)) < 0"
  shows "Dot (normal h) (light_dir C h L) < 0 \<and>
     (\<exists>st'. light_body R C pScene materials viewRay h L st = Some st' \<and>
        finalColor st' = finalColor st \<and>
        calls st' = calls st @ [GetDirectionToLight_call L (HitRecord.origin h)]) \<and>
     running_color R C pScene materials viewRay h (before @ [L]) =
       running_color R C pScene materials viewRay h before \<and>
     (GetClosestHit pScene
        (view_ray R C (pixelIndex mod m_Width R) (pixelIndex div m_Width R)
           fov aspectRatio camera) = h \<longrightarrow>
      map_option fst
        (RenderPixel R C pScene pixelIndex fov aspectRatio camera (before @ L # rest)
           materials) =
      map_option fst
        (RenderPixel R C pScene pixelIndex fov aspectRatio camera (before @ rest) materials))"
proof -
  from assms have test: "Dot (normal h) (light_dir C h L) < 0"
    by (simp add: light_dir_def Dot_normalized_sign)
  then have no: "\<not> contributes R C pScene h L"
    by (simp add: contributes_def front_facing_def)
  from no have "GetClosestHit pScene
        (view_ray R C (pixelIndex mod m_Width R) (pixelIndex div m_Width R)
           fov aspectRatio camera) = h \<longrightarrow>
      map_option fst
        (RenderPixel R C pScene pixelIndex fov aspectRatio camera (before @ L # rest)
           materials) =
      map_option fst
        (RenderPixel R C pScene pixelIndex fov aspectRatio camera (before @ rest) materials)"
    using RenderPixel_without_light [of R C pScene pixelIndex fov aspectRatio camera L]
    by blast
  with test light_body_backfacing [OF test] running_color_skip [OF no]
  show ?thesis by blast
qed

theorem backfacing_light_skipped_witness:
  "Dot (normal wall_hit)
     (GetDirectionToLight wall_collaborators \<lparr>x = 0, y = 0, z = 7\<rparr>
        (HitRecord.origin wall_hit)) < 0 \<and>
   running_color wall_renderer wall_collaborators wall_scene [\<lparr>r = 1, g = 1 / 5, b = 0\<rparr>]
     (Ray_default wall_collaborators) wall_hit
     ([\<lparr>x = 0, y = 0, z = 3\<rparr>] @ [\<lparr>x = 0, y = 0, z = 7\<rparr>]) =
   Some \<lparr>r = 1, g = 1 / 5, b = 0\<rparr>"
proof -
  have behind: "Dot (normal wall_hit)
     (GetDirectionToLight wall_collaborators \<lparr>x = 0, y = 0, z = 7\<rparr>
        (HitRecord.origin wall_hit)) < 0"
    by (simp add: wall_hit_def wall_collaborators_def vector_simps)
  from backfacing_light_skipped [OF behind]
  have "running_color wall_renderer wall_collaborators wall_scene [\<lparr>r = 1, g = 1 / 5, b = 0\<rparr>]
     (Ray_default wall_collaborators) wall_hit
     ([\<lparr>x = 0, y = 0, z = 3\<rparr>] @ [\<lparr>x = 0, y = 0, z = 7\<rparr>]) =
     running_color wall_renderer wall_collaborators wall_scene [\<lparr>r = 1, g = 1 / 5, b = 0\<rparr>]
     (Ray_default wall_collaborators) wall_hit [\<lparr>x = 0, y = 0, z = 3\<rparr>]"
    by blast
  with behind show ?thesis
    by (simp only: wall_running_color) 
qed

text \<open>
  C4: for a light that faces the surface and whose shadow ray the any-hit query reports
  as hit: with \<^verbatim>\<open>m_ShadowsEnabled\<close> set, the running colour after the light is the one
  before it, and the pixel written is the pixel written without the light; with
  \<^verbatim>\<open>m_ShadowsEnabled\<close> not set, the term of the light under the lighting mode is added
  to the running colour, whatever the query answers.
\<close>

theorem shadow_test:
  assumes "front_facing C h L" and "DoesHit pScene (light_ray C h L)"
    and "materialIndex h < length materials"
  shows
    "running_color (R\<lparr>m_ShadowsEnabled := True\<rparr>) C pScene materials viewRay h (before @ [L]) =
     running_color (R\<lparr>m_ShadowsEnabled := True\<rparr>) C pScene materials viewRay h before \<and>
     (\<exists>c. running_color (R\<lparr>m_ShadowsEnabled := False\<rparr>) C pScene materials viewRay h before =
            Some c \<and>
          running_color (R\<lparr>m_ShadowsEnabled := False\<rparr>) C pScene materials viewRay h
            (before @ [L]) =
            Some (ColorRGB_plus c
                    (light_term (m_CurrentLightingMode R) C materials viewRay h L))) \<and>
     (GetClosestHit pScene
        (view_ray R C (pixelIndex mod m_Width R) (pixelIndex div m_Width R)
           fov aspectRatio camera) = h \<longrightarrow>
      map_option fst
        (RenderPixel (R\<lparr>m_ShadowsEnabled := True\<rparr>) C pScene pixelIndex fov aspectRatio camera
           (before @ L # rest) materials) =
      map_option fst
        (RenderPixel (R\<lparr>m_ShadowsEnabled := True\<rparr>) C pScene pixelIndex fov aspectRatio camera
           (before @ rest) materials))"
proof -
  let ?on = "R\<lparr>m_ShadowsEnabled := True\<rparr>" and ?off = "R\<lparr>m_ShadowsEnabled := False\<rparr>"
  from assms(2) have no: "\<not> contributes ?on C pScene h L"
    by (simp add: contributes_def shadowed_def)
  from assms(1) have yes: "contributes ?off C pScene h L"
    by (simp add: contributes_def shadowed_def)
  have view: "view_ray ?on C (pixelIndex mod m_Width R) (pixelIndex div m_Width R)
      fov aspectRatio camera =
    view_ray R C (pixelIndex mod m_Width R) (pixelIndex div m_Width R) fov aspectRatio camera"
    by (simp add: view_ray_def)
  have "running_color ?off C pScene materials viewRay h before =
      Some (accumulated_color ?off C pScene materials viewRay h before)"
    using assms(3) by (simp add: running_color_closed defined_for_def)
  moreover have "running_color ?off C pScene materials viewRay h (before @ [L]) =
      map_option
        (\<lambda>c. ColorRGB_plus c (light_term (m_CurrentLightingMode R) C materials viewRay h L))
        (running_color ?off C pScene materials viewRay h before)"
    using running_color_add [OF yes assms(3)] by simp
  moreover have "GetClosestHit pScene
        (view_ray R C (pixelIndex mod m_Width R) (pixelIndex div m_Width R)
           fov aspectRatio camera) = h \<longrightarrow>
      map_option fst
        (RenderPixel ?on C pScene pixelIndex fov aspectRatio camera (before @ L # rest)
           materials) =
      map_option fst
        (RenderPixel ?on C pScene pixelIndex fov aspectRatio camera (before @ rest) materials)"
    using RenderPixel_without_light [of ?on C pScene pixelIndex fov aspectRatio camera L] no
    by (simp add: view)
  ultimately show ?thesis
    using running_color_skip [OF no] by simp
qed

theorem shadow_test_witness:
  "front_facing wall_collaborators wall_hit \<lparr>x = 0, y = 0, z = 3\<rparr> \<and>
   DoesHit (wall_scene\<lparr>DoesHit := \<lambda>ray. True\<rparr>)
     (light_ray wall_collaborators wall_hit \<lparr>x = 0, y = 0, z = 3\<rparr>) \<and>
   materialIndex wall_hit < length [\<lparr>r = 1, g = 1 / 5, b = 0\<rparr>] \<and>
   running_color (wall_renderer\<lparr>m_ShadowsEnabled := True\<rparr>) wall_collaborators
     (wall_scene\<lparr>DoesHit := \<lambda>ray. True\<rparr>) [\<lparr>r = 1, g = 1 / 5, b = 0\<rparr>]
     (Ray_default wall_collaborators) wall_hit ([] @ [\<lparr>x = 0, y = 0, z = 3\<rparr>]) =
   Some \<lparr>r = 0, g = 0, b = 0\<rparr> \<and>
   running_color (wall_renderer\<lparr>m_ShadowsEnabled := False\<rparr>) wall_collaborators
     (wall_scene\<lparr>DoesHit := \<lambda>ray. True\<rparr>) [\<lparr>r = 1, g = 1 / 5, b = 0\<rparr>]
     (Ray_default wall_collaborators) wall_hit ([] @ [\<lparr>x = 0, y = 0, z = 3\<rparr>]) =
   Some \<lparr>r = 1, g = 1 / 5, b = 0\<rparr>"
proof -
  have occ: "DoesHit (wall_scene\<lparr>DoesHit := \<lambda>ray. True\<rparr>)
     (light_ray wall_collaborators wall_hit \<lparr>x = 0, y = 0, z = 3\<rparr>)"
    by simp
  have idx: "materialIndex wall_hit < length [\<lparr>r = 1, g = 1 / 5, b = 0\<rparr>]"
    by (simp add: wall_hit_def)
  have mode: "m_CurrentLightingMode wall_renderer = Combined"
    by (simp add: wall_renderer_def)
  have plus: "ColorRGB_plus \<lparr>r = 0, g = 0, b = 0\<rparr> \<lparr>r = 1, g = 1 / 5, b = 0\<rparr> =
      \<lparr>r = 1, g = 1 / 5, b = 0\<rparr>"
    by (simp add: ColorRGB_plus_def)
  from shadow_test [OF wall_front_facing occ idx, of wall_renderer
      "Ray_default wall_collaborators" "[]"]
  show ?thesis
    using wall_front_facing occ idx
    by (simp only: running_color_Nil mode wall_light_term plus option.inject simp_thms ex_simps)
qed

text \<open>
  C5: in the mode \<^verbatim>\<open>Combined\<close>, a light that passes both tests adds to the running colour
  the componentwise product of its radiance \<open>E\<close> at the hit point and of the result of
  \<^verbatim>\<open>Shade\<close>, scaled by the dot product of the surface normal and the normalized
  direction to the light.
\<close>

theorem combined_mode_adds_product:
  assumes "m_CurrentLightingMode R = Combined" and "contributes R C pScene h L"
    and "materialIndex h < length materials"
  shows "\<exists>c. running_color R C pScene materials viewRay h before = Some c \<and>
     running_color R C pScene materials viewRay h (before @ [L]) =
       Some (ColorRGB_plus c
         (ColorRGB_scale
            (ColorRGB_times (GetRadiance C L (HitRecord.origin h))
               (Shade C (materials ! materialIndex h) h
                  (Normalized (light_dir C h L)) (Normalized (direction viewRay))))
            (Dot (normal h) (Normalized (GetDirectionToLight C L (HitRecord.origin h))))))"
proof -
  have "running_color R C pScene materials viewRay h before =
      Some (accumulated_color R C pScene materials viewRay h before)"
    using assms(3) by (simp add: running_color_closed defined_for_def)
  moreover have "light_term Combined C materials viewRay h L =
      ColorRGB_scale
        (ColorRGB_times (GetRadiance C L (HitRecord.origin h))
           (Shade C (materials ! materialIndex h) h
              (Normalized (light_dir C h L)) (Normalized (direction viewRay))))
        (Dot (normal h) (Normalized (GetDirectionToLight C L (HitRecord.origin h))))"
    by (simp add: light_term_def light_dir_def snd_Normalize)
  ultimately show ?thesis
    using running_color_add [OF assms(2,3), of viewRay before] assms(1) by simp
qed

theorem combined_mode_adds_product_witness:
  "m_CurrentLightingMode wall_renderer = Combined \<and>
   contributes wall_renderer wall_collaborators wall_scene wall_hit \<lparr>x = 0, y = 0, z = 3\<rparr> \<and>
   materialIndex wall_hit < length [\<lparr>r = 1, g = 1 / 5, b = 0\<rparr>] \<and>
   running_color wall_renderer wall_collaborators wall_scene [\<lparr>r = 1, g = 1 / 5, b = 0\<rparr>]
     (Ray_default wall_collaborators) wall_hit
     ([\<lparr>x = 0, y = 0, z = 3\<rparr>] @ [\<lparr>x = 0, y = 0, z = 3\<rparr>]) =
   Some \<lparr>r = 2, g = 2 / 5, b = 0\<rparr>"
proof -
  have mode: "m_CurrentLightingMode wall_renderer = Combined"
    by (simp add: wall_renderer_def)
  have lit: "contributes wall_renderer wall_collaborators wall_scene wall_hit
      \<lparr>x = 0, y = 0, z = 3\<rparr>"
    using wall_front_facing by (simp add: contributes_def shadowed_def wall_scene_def)
  have idx: "materialIndex wall_hit < length [\<lparr>r = 1, g = 1 / 5, b = 0\<rparr>]"
    by (simp add: wall_hit_def)
  have added: "ColorRGB_plus \<lparr>r = 1, g = 1 / 5, b = 0\<rparr>
     (ColorRGB_scale
        (ColorRGB_times
           (GetRadiance wall_collaborators \<lparr>x = 0, y = 0, z = 3\<rparr> (HitRecord.origin wall_hit))
           (Shade wall_collaborators
              ([\<lparr>r = 1, g = 1 / 5, b = 0\<rparr>] ! materialIndex wall_hit) wall_hit
              (Normalized (light_dir wall_collaborators wall_hit \<lparr>x = 0, y = 0, z = 3\<rparr>))
              (Normalized (direction (Ray_default wall_collaborators)))))
        (Dot (normal wall_hit)
           (Normalized (GetDirectionToLight wall_collaborators \<lparr>x = 0, y = 0, z = 3\<rparr>
              (HitRecord.origin wall_hit))))) = \<lparr>r = 2, g = 2 / 5, b = 0\<rparr>"
    by (simp add: wall_hit_def wall_collaborators_def vector_simps color_simps)
  from combined_mode_adds_product [OF mode lit idx, of "Ray_default wall_collaborators"
      "[\<lparr>x = 0, y = 0, z = 3\<rparr>]"]
  obtain c where
    c: "running_color wall_renderer wall_collaborators wall_scene [\<lparr>r = 1, g = 1 / 5, b = 0\<rparr>]
      (Ray_default wall_collaborators) wall_hit [\<lparr>x = 0, y = 0, z = 3\<rparr>] = Some c"
    and "running_color wall_renderer wall_collaborators wall_scene [\<lparr>r = 1, g = 1 / 5, b = 0\<rparr>]
      (Ray_default wall_collaborators) wall_hit
      ([\<lparr>x = 0, y = 0, z = 3\<rparr>] @ [\<lparr>x = 0, y = 0, z = 3\<rparr>]) =
     Some (ColorRGB_plus c
       (ColorRGB_scale
        (ColorRGB_times
           (GetRadiance wall_collaborators \<lparr>x = 0, y = 0, z = 3\<rparr> (HitRecord.origin wall_hit))
           (Shade wall_collaborators
              ([\<lparr>r = 1, g = 1 / 5, b = 0\<rparr>] ! materialIndex wall_hit) wall_hit
              (Normalized (light_dir wall_collaborators wall_hit \<lparr>x = 0, y = 0, z = 3\<rparr>))
              (Normalized (direction (Ray_default wall_collaborators)))))
        (Dot (normal wall_hit)
           (Normalized (GetDirectionToLight wall_collaborators \<lparr>x = 0, y = 0, z = 3\<rparr>
              (HitRecord.origin wall_hit))))))"
    by blast
  moreover from c have "c = \<lparr>r = 1, g = 1 / 5, b = 0\<rparr>"
    by (simp add: wall_running_color)
  ultimately have "running_color wall_renderer wall_collaborators wall_scene
     [\<lparr>r = 1, g = 1 / 5, b = 0\<rparr>] (Ray_default wall_collaborators) wall_hit
     ([\<lparr>x = 0, y = 0, z = 3\<rparr>] @ [\<lparr>x = 0, y = 0, z = 3\<rparr>]) =
   Some \<lparr>r = 2, g = 2 / 5, b = 0\<rparr>"
    by (simp only: added)
  with mode lit idx show ?thesis by blast
qed

text \<open>
  C6: after the loop has handled a light \<open>L\<close>, whatever lights came before it, the shadow
  ray has the lower bound \<open>0.01\<close>, as upper bound the length of the direction from the
  hit point to the light, as direction that direction normalized, and as origin the hit
  point moved by \<open>0.01\<close> times the normalized direction (along the direction to the
  light, and not along the surface normal). When the light faces the surface, this is the
  ray handed to \<^verbatim>\<open>DoesHit\<close>.
\<close>

theorem shadow_ray_construction:
  assumes "lights_loop R C pScene materials viewRay h (before @ [L]) (initial_state C viewRay) =
             Some st'"
  shows "min_bound (shadowRay st') = 0.01 \<and>
     max_bound (shadowRay st') = Magnitude (GetDirectionToLight C L (HitRecord.origin h)) \<and>
     direction (shadowRay st') = Normalized (GetDirectionToLight C L (HitRecord.origin h)) \<and>
     Ray.origin (shadowRay st') =
       Vector3_plus (HitRecord.origin h)
         (Vector3_scale 0.01 (Normalized (GetDirectionToLight C L (HitRecord.origin h)))) \<and>
     (\<not> Dot (normal h) (direction (shadowRay st')) < 0 \<longrightarrow>
        DoesHit_call (shadowRay st') \<in> set (calls st'))"
proof -
  from assms obtain st1 where
    loop: "lights_loop R C pScene materials viewRay h before (initial_state C viewRay) = Some st1"
    and body: "light_body R C pScene materials viewRay h L st1 = Some st'"
    by (auto simp: lights_loop_append split: option.splits)
  have mb: "min_bound (shadowRay st1) = 0.01"
    using lights_loop_min_bound [OF loop] by (simp add: initial_state_def)
  have ray: "shadowRay st' =
      \<lparr>Ray.origin = Vector3_plus (HitRecord.origin h)
         (Vector3_scale 0.01 (Normalized (GetDirectionToLight C L (HitRecord.origin h)))),
       direction = Normalized (GetDirectionToLight C L (HitRecord.origin h)),
       min_bound = 0.01,
       max_bound = Magnitude (GetDirectionToLight C L (HitRecord.origin h))\<rparr>"
    using light_body_shadowRay [OF body] by (simp add: mb)
  have "materialIndex h < length materials \<or> \<not> contributes R C pScene h L"
    using light_body_None [OF mb, of h materials R C pScene L viewRay] body by auto
  from light_body_closed [OF mb this, of viewRay] body
  have "calls st' = calls st1 @ light_calls R C pScene viewRay h L"
    and "shadowRay st' = light_ray C h L"
    by auto
  then have "\<not> Dot (normal h) (direction (shadowRay st')) < 0 \<longrightarrow>
        DoesHit_call (shadowRay st') \<in> set (calls st')"
    by (simp add: light_calls_def front_facing_def light_ray_def)
  with ray show ?thesis by simp
qed

theorem shadow_ray_construction_witness:
  "lights_loop wall_renderer wall_collaborators wall_scene [\<lparr>r = 1, g = 1 / 5, b = 0\<rparr>]
     (Ray_default wall_collaborators) wall_hit ([] @ [\<lparr>x = 0, y = 0, z = 3\<rparr>])
     (initial_state wall_collaborators (Ray_default wall_collaborators)) \<noteq> None \<and>
   shadowRay (the
     (lights_loop wall_renderer wall_collaborators wall_scene [\<lparr>r = 1, g = 1 / 5, b = 0\<rparr>]
        (Ray_default wall_collaborators) wall_hit ([] @ [\<lparr>x = 0, y = 0, z = 3\<rparr>])
        (initial_state wall_collaborators (Ray_default wall_collaborators)))) =
   \<lparr>Ray.origin = \<lparr>x = 0, y = 0, z = 499 / 100\<rparr>, direction = \<lparr>x = 0, y = 0, z = - 1\<rparr>,
    min_bound = 1 / 100, max_bound = 2\<rparr>"
proof -
  have "materialIndex wall_hit < length [\<lparr>r = 1, g = 1 / 5, b = 0\<rparr>] \<or>
      (\<forall>L \<in> set ([] @ [\<lparr>x = 0, y = 0, z = 3\<rparr>]).
         \<not> contributes wall_renderer wall_collaborators wall_scene wall_hit L)"
    by (simp add: wall_hit_def)
  moreover have "min_bound (shadowRay (initial_state wall_collaborators
      (Ray_default wall_collaborators) :: Vector3 loop_state)) = 0.01"
    by (simp add: initial_state_def)
  ultimately obtain st' where
    loop: "lights_loop wall_renderer wall_collaborators wall_scene [\<lparr>r = 1, g = 1 / 5, b = 0\<rparr>]
     (Ray_default wall_collaborators) wall_hit ([] @ [\<lparr>x = 0, y = 0, z = 3\<rparr>])
     (initial_state wall_collaborators (Ray_default wall_collaborators)) = Some st'"
    using lights_loop_closed by blast
  have d: "GetDirectionToLight wall_collaborators \<lparr>x = 0, y = 0, z = 3\<rparr>
      (HitRecord.origin wall_hit) = \<lparr>x = 0, y = 0, z = - 2\<rparr>"
    by (simp add: wall_collaborators_def wall_hit_def Vector3_minus_def)
  have m: "Magnitude \<lparr>x = 0, y = 0, z = - 2\<rparr> = 2"
    and n: "Normalized \<lparr>x = 0, y = 0, z = - 2\<rparr> = \<lparr>x = 0, y = 0, z = - 1\<rparr>"
    by (simp_all add: vector_simps)
  have p: "Vector3_plus (HitRecord.origin wall_hit)
      (Vector3_scale 0.01 \<lparr>x = 0, y = 0, z = - 1\<rparr>) = \<lparr>x = 0, y = 0, z = 499 / 100\<rparr>"
    by (simp add: wall_hit_def vector_simps)
  from shadow_ray_construction [OF loop]
  have "shadowRay st' =
    \<lparr>Ray.origin = \<lparr>x = 0, y = 0, z = 499 / 100\<rparr>, direction = \<lparr>x = 0, y = 0, z = - 1\<rparr>,
     min_bound = 1 / 100, max_bound = 2\<rparr>"
    unfolding d m n p by (cases "shadowRay st'") simp
  with loop show ?thesis by simp
qed

text \<open>
  C7: when the closest-hit query of the view ray of a pixel reports no hit, the pixel is
  written as black: no light is consulted, \<^verbatim>\<open>finalColor\<close> is still the zero colour,
  \<^verbatim>\<open>MaxToOne\<close> leaves it so, each channel is cast to the byte 0, and the value stored
  is \<^verbatim>\<open>SDL_MapRGB\<close> of three zero bytes.
\<close>

theorem no_hit_pixel_is_black:
  assumes "0 < m_Width R"
    and "\<not> didHit (GetClosestHit pScene
           (view_ray R C (pixelIndex mod m_Width R) (pixelIndex div m_Width R)
              fov aspectRatio camera))"
  shows "RenderPixel R C pScene pixelIndex fov aspectRatio camera lights materials =
           Some ((pixelIndex mod m_Width R + pixelIndex div m_Width R * m_Width R,
                  SDL_MapRGB C 0 0 0),
                 [GetClosestHit_call
                    (view_ray R C (pixelIndex mod m_Width R) (pixelIndex div m_Width R)
                       fov aspectRatio camera)]) \<and>
         finalColor (initial_state C
           (view_ray R C (pixelIndex mod m_Width R) (pixelIndex div m_Width R)
              fov aspectRatio camera) :: 'a loop_state) = \<lparr>r = 0, g = 0, b = 0\<rparr> \<and>
         MaxToOne \<lparr>r = 0, g = 0, b = 0\<rparr> = \<lparr>r = 0, g = 0, b = 0\<rparr> \<and>
         to_uint8 (0 * 255) = Some 0"
  using RenderPixel_miss [OF assms(1) refl assms(2)]
  by (simp add: initial_state_def ColorRGB_zero_def MaxToOne_def to_uint8_def)

theorem no_hit_pixel_is_black_witness:
  "0 < m_Width wall_renderer \<and>
   \<not> didHit (GetClosestHit wall_scene
      (view_ray wall_renderer wall_collaborators (3 mod m_Width wall_renderer)
        (3 div m_Width wall_renderer) 0 1 (wall_camera\<lparr>cameraToWorld := Vector3_uminus\<rparr>))) \<and>
   RenderPixel wall_renderer wall_collaborators wall_scene 3 0 1
     (wall_camera\<lparr>cameraToWorld := Vector3_uminus\<rparr>)
     (GetLights wall_scene) (GetMaterials wall_scene) =
   Some ((3, 0),
     [GetClosestHit_call
        \<lparr>Ray.origin = \<lparr>x = 0, y = 0, z = 0\<rparr>, direction = \<lparr>x = 0, y = 0, z = - 1\<rparr>,
         min_bound = 0, max_bound = 1000\<rparr>])"
proof -
  have v: "view_ray wall_renderer wall_collaborators (3 mod m_Width wall_renderer)
        (3 div m_Width wall_renderer) 0 1 (wall_camera\<lparr>cameraToWorld := Vector3_uminus\<rparr>) =
      \<lparr>Ray.origin = \<lparr>x = 0, y = 0, z = 0\<rparr>, direction = \<lparr>x = 0, y = 0, z = - 1\<rparr>,
         min_bound = 0, max_bound = 1000\<rparr>"
    by (simp add: view_ray_def wall_renderer_def wall_collaborators_def wall_camera_def
        vector_simps)
  have w: "0 < m_Width wall_renderer"
    by (simp add: wall_renderer_def)
  have miss: "\<not> didHit (GetClosestHit wall_scene
      (view_ray wall_renderer wall_collaborators (3 mod m_Width wall_renderer)
        (3 div m_Width wall_renderer) 0 1 (wall_camera\<lparr>cameraToWorld := Vector3_uminus\<rparr>)))"
    unfolding v by (simp add: wall_scene_def no_hit_def)
  have off: "3 mod m_Width wall_renderer + 3 div m_Width wall_renderer * m_Width wall_renderer = 3"
    by (simp add: wall_renderer_def)
  have black: "SDL_MapRGB wall_collaborators 0 0 0 = 0"
    by (simp add: wall_collaborators_def)
  from no_hit_pixel_is_black [OF w miss, of "GetLights wall_scene" "GetMaterials wall_scene"]
  have "RenderPixel wall_renderer wall_collaborators wall_scene 3 0 1
     (wall_camera\<lparr>cameraToWorld := Vector3_uminus\<rparr>)
     (GetLights wall_scene) (GetMaterials wall_scene) =
   Some ((3, 0),
     [GetClosestHit_call
        \<lparr>Ray.origin = \<lparr>x = 0, y = 0, z = 0\<rparr>, direction = \<lparr>x = 0, y = 0, z = - 1\<rparr>,
         min_bound = 0, max_bound = 1000\<rparr>])"
    unfolding v off black by blast
  with w miss show ?thesis
    by blast
qed

text \<open>
  C8: for a width above 0 and a pixel index \<open>i\<close> below width times height, the pair
  \<open>(i mod width, i div width)\<close> is put together again to \<open>i\<close> by \<open>px + py * width\<close>;
  the decomposition is a bijection between the indices below width times height and the
  pairs of a column below the width and a row below the height; and the offset that
  \<^verbatim>\<open>RenderPixel\<close> writes to is this recomposition.
\<close>

theorem pixel_index_bijection:
  assumes "0 < m_Width R" and "pixelIndex < m_Width R * m_Height R"
  shows "pixelIndex mod m_Width R + pixelIndex div m_Width R * m_Width R = pixelIndex \<and>
         pixelIndex mod m_Width R < m_Width R \<and>
         pixelIndex div m_Width R < m_Height R \<and>
         bij_betw (\<lambda>i. (i mod m_Width R, i div m_Width R))
           {0..<m_Width R * m_Height R} ({0..<m_Width R} \<times> {0..<m_Height R}) \<and>
         (\<forall>offset p cs.
            RenderPixel R C pScene pixelIndex fov aspectRatio camera lights materials =
              Some ((offset, p), cs) \<longrightarrow>
            offset = pixelIndex mod m_Width R + pixelIndex div m_Width R * m_Width R)"
proof -
  have "pixelIndex div m_Width R < m_Height R"
    using assms by (simp add: less_mult_imp_div_less mult.commute)
  moreover have "\<forall>offset p cs.
      RenderPixel R C pScene pixelIndex fov aspectRatio camera lights materials =
        Some ((offset, p), cs) \<longrightarrow>
      offset = pixelIndex mod m_Width R + pixelIndex div m_Width R * m_Width R"
    by (auto simp: RenderPixel_def Let_def split: if_splits option.splits)
  ultimately show ?thesis
    using assms(1) index_bij [OF assms(1), of "m_Height R"] by simp
qed

theorem pixel_index_bijection_witness:
  "0 < m_Width wall_renderer \<and> 3 < m_Width wall_renderer * m_Height wall_renderer \<and>
   3 mod m_Width wall_renderer = 1 \<and> 3 div m_Width wall_renderer = 1 \<and>
   1 + 1 * m_Width wall_renderer = 3 \<and>
   map_option (fst \<circ> fst)
     (RenderPixel wall_renderer wall_collaborators wall_scene 3 0 1 wall_camera
        (GetLights wall_scene) (GetMaterials wall_scene)) = Some 3"
proof -
  have w: "0 < m_Width wall_renderer"
    and i: "3 < m_Width wall_renderer * m_Height wall_renderer"
    by (simp_all add: wall_renderer_def)
  from pixel_index_bijection [OF w i, of wall_collaborators wall_scene 0 1 wall_camera
      "GetLights wall_scene" "GetMaterials wall_scene"]
  have "\<forall>offset p cs.
      RenderPixel wall_renderer wall_collaborators wall_scene 3 0 1 wall_camera
        (GetLights wall_scene) (GetMaterials wall_scene) = Some ((offset, p), cs) \<longrightarrow>
      offset = 3 mod m_Width wall_renderer + 3 div m_Width wall_renderer * m_Width wall_renderer"
    by blast
  then have "map_option (fst \<circ> fst)
     (RenderPixel wall_renderer wall_collaborators wall_scene 3 0 1 wall_camera
        (GetLights wall_scene) (GetMaterials wall_scene)) = Some 3"
    by (simp add: wall_RenderPixel)
  with w i show ?thesis
    by (simp add: wall_renderer_def)
qed

text \<open>
  C9: \<^verbatim>\<open>CycleLightingMode\<close> takes \<^verbatim>\<open>ObservedArea\<close> to \<^verbatim>\<open>Radiance\<close>, \<^verbatim>\<open>Radiance\<close> to
  \<^verbatim>\<open>BRDF\<close>, \<^verbatim>\<open>BRDF\<close> to \<^verbatim>\<open>Combined\<close> and \<^verbatim>\<open>Combined\<close> to \<^verbatim>\<open>ObservedArea\<close>; four
  calls give the renderer back, and one, two or three calls do not; and the other
  member functions of \<^verbatim>\<open>Renderer.cpp\<close>, \<^verbatim>\<open>Render\<close> in each of its three strategies and
  \<^verbatim>\<open>SaveBufferToImage\<close>, leave the lighting mode as it is.
\<close>

theorem CycleLightingMode_cycle:
  "m_CurrentLightingMode (CycleLightingMode (R\<lparr>m_CurrentLightingMode := ObservedArea\<rparr>)) =
     Radiance \<and>
   m_CurrentLightingMode (CycleLightingMode (R\<lparr>m_CurrentLightingMode := Radiance\<rparr>)) =
     BRDF \<and>
   m_CurrentLightingMode (CycleLightingMode (R\<lparr>m_CurrentLightingMode := BRDF\<rparr>)) =
     Combined \<and>
   m_CurrentLightingMode (CycleLightingMode (R\<lparr>m_CurrentLightingMode := Combined\<rparr>)) =
     ObservedArea \<and>
   CycleLightingMode (CycleLightingMode (CycleLightingMode (CycleLightingMode R))) = R \<and>
   CycleLightingMode R \<noteq> R \<and>
   CycleLightingMode (CycleLightingMode R) \<noteq> R \<and>
   CycleLightingMode (CycleLightingMode (CycleLightingMode R)) \<noteq> R \<and>
   (\<forall>R'. Render_sequential R C pScene = Some R' \<longrightarrow>
      m_CurrentLightingMode R' = m_CurrentLightingMode R) \<and>
   (\<forall>numCores R'. Render_async R C pScene numCores (Some R') \<longrightarrow>
      m_CurrentLightingMode R' = m_CurrentLightingMode R) \<and>
   (\<forall>R'. Render_parallel_for R C pScene (Some R') \<longrightarrow>
      m_CurrentLightingMode R' = m_CurrentLightingMode R) \<and>
   snd (SaveBufferToImage SDL_SaveBMP R) = R"
proof -
  have four: "CycleLightingMode (CycleLightingMode (CycleLightingMode (CycleLightingMode R))) = R"
    by (cases "m_CurrentLightingMode R") (simp_all add: CycleLightingMode_def)
  have "m_CurrentLightingMode (CycleLightingMode R) \<noteq> m_CurrentLightingMode R"
    "m_CurrentLightingMode (CycleLightingMode (CycleLightingMode R)) \<noteq>
       m_CurrentLightingMode R"
    "m_CurrentLightingMode (CycleLightingMode (CycleLightingMode (CycleLightingMode R))) \<noteq>
       m_CurrentLightingMode R"
    by (cases "m_CurrentLightingMode R"; simp add: CycleLightingMode_def)+
  then have fewer: "CycleLightingMode R \<noteq> R" "CycleLightingMode (CycleLightingMode R) \<noteq> R"
    "CycleLightingMode (CycleLightingMode (CycleLightingMode R)) \<noteq> R"
    by auto
  have kept: "m_CurrentLightingMode R' = m_CurrentLightingMode R"
    if "frame_done R res = Some R'" for res R'
    using that by (auto simp: frame_done_def)
  have "m_CurrentLightingMode R' = m_CurrentLightingMode R"
    if "Render_async R C pScene numCores (Some R')" for numCores R'
    using that kept by (auto simp: Render_async_def Let_def split: if_splits)
  moreover have "m_CurrentLightingMode R' = m_CurrentLightingMode R"
    if "Render_parallel_for R C pScene (Some R')" for R'
    using that kept by (auto simp: Render_parallel_for_def)
  moreover have "m_CurrentLightingMode R' = m_CurrentLightingMode R"
    if "Render_sequential R C pScene = Some R'" for R'
    using that kept by (auto simp: Render_sequential_def)
  ultimately show ?thesis
    using four fewer by (simp add: CycleLightingMode_def SaveBufferToImage_def)
qed

theorem CycleLightingMode_cycle_witness:
  "Render_sequential wall_renderer wall_collaborators wall_scene =
     Some (wall_renderer\<lparr>m_pBufferPixels := \<lambda>k. if k < 4 then 16724736 else 0\<rparr>) \<and>
   m_CurrentLightingMode
     (wall_renderer\<lparr>m_pBufferPixels := \<lambda>k. if k < 4 then 16724736 else 0\<rparr>) = Combined \<and>
   m_CurrentLightingMode (CycleLightingMode wall_renderer) = ObservedArea \<and>
   CycleLightingMode (CycleLightingMode (CycleLightingMode (CycleLightingMode wall_renderer))) =
     wall_renderer"
proof -
  have mode: "m_CurrentLightingMode wall_renderer = Combined"
    by (simp add: wall_renderer_def)
  then have same: "wall_renderer\<lparr>m_CurrentLightingMode := Combined\<rparr> = wall_renderer"
    by (simp add: wall_renderer_def)
  note cycle = CycleLightingMode_cycle [of wall_renderer wall_collaborators wall_scene]
  from cycle have "m_CurrentLightingMode
      (CycleLightingMode (wall_renderer\<lparr>m_CurrentLightingMode := Combined\<rparr>)) = ObservedArea"
    by blast
  then have next_one: "m_CurrentLightingMode (CycleLightingMode wall_renderer) = ObservedArea"
    by (simp only: same)
  from cycle have four: "CycleLightingMode (CycleLightingMode (CycleLightingMode
      (CycleLightingMode wall_renderer))) = wall_renderer"
    by blast
  from cycle have "\<forall>R'. Render_sequential wall_renderer wall_collaborators wall_scene =
      Some R' \<longrightarrow> m_CurrentLightingMode R' = m_CurrentLightingMode wall_renderer"
    by blast
  with wall_Render_sequential have "m_CurrentLightingMode
     (wall_renderer\<lparr>m_pBufferPixels := \<lambda>k. if k < 4 then 16724736 else 0\<rparr>) = Combined"
    by (simp only: mode)
  with wall_Render_sequential next_one four show ?thesis
    by blast
qed

text \<open>
  C10: with \<^verbatim>\<open>m_ShadowsEnabled\<close> not set, two scenes that differ in the answers of
  \<^verbatim>\<open>DoesHit\<close> only give the same pixel for every index and the same pixel memory
  after a frame, under each of the three strategies; and yet \<^verbatim>\<open>DoesHit\<close> is called, with the shadow ray, for every light
  that faces the surface hit.
\<close>

theorem shadows_disabled_ignore_DoesHit:
  assumes "\<not> m_ShadowsEnabled R"
  shows "map_option fst
      (RenderPixel R C (pScene\<lparr>DoesHit := occluder\<rparr>) pixelIndex fov aspectRatio camera
         lights materials) =
    map_option fst
      (RenderPixel R C (pScene\<lparr>DoesHit := occluder'\<rparr>) pixelIndex fov aspectRatio camera
         lights materials) \<and>
    Render_sequential R C (pScene\<lparr>DoesHit := occluder\<rparr>) =
    Render_sequential R C (pScene\<lparr>DoesHit := occluder'\<rparr>) \<and>
    (Render_parallel_for R C (pScene\<lparr>DoesHit := occluder\<rparr>) res \<longleftrightarrow>
     Render_parallel_for R C (pScene\<lparr>DoesHit := occluder'\<rparr>) res) \<and>
    (Render_async R C (pScene\<lparr>DoesHit := occluder\<rparr>) numCores res \<longleftrightarrow>
     Render_async R C (pScene\<lparr>DoesHit := occluder'\<rparr>) numCores res) \<and>
    (\<forall>w cs.
       RenderPixel R C (pScene\<lparr>DoesHit := occluder\<rparr>) pixelIndex fov aspectRatio camera
         lights materials = Some (w, cs) \<longrightarrow>
       didHit (GetClosestHit pScene
         (view_ray R C (pixelIndex mod m_Width R) (pixelIndex div m_Width R)
            fov aspectRatio camera)) \<longrightarrow>
       (\<forall>L \<in> set lights.
          front_facing C
            (GetClosestHit pScene
               (view_ray R C (pixelIndex mod m_Width R) (pixelIndex div m_Width R)
                  fov aspectRatio camera)) L \<longrightarrow>
          DoesHit_call
            (light_ray C
               (GetClosestHit pScene
                  (view_ray R C (pixelIndex mod m_Width R) (pixelIndex div m_Width R)
                     fov aspectRatio camera)) L) \<in> set cs))"
proof -
  define viewRay where "viewRay =
    view_ray R C (pixelIndex mod m_Width R) (pixelIndex div m_Width R) fov aspectRatio camera"
  define h where "h = GetClosestHit pScene viewRay"
  have "DoesHit_call (light_ray C h L) \<in> set cs"
    if res: "RenderPixel R C (pScene\<lparr>DoesHit := occluder\<rparr>) pixelIndex fov aspectRatio camera
         lights materials = Some (w, cs)"
      and hit: "didHit h" and L: "L \<in> set lights" and front: "front_facing C h L"
    for w cs L
  proof -
    have "h = GetClosestHit (pScene\<lparr>DoesHit := occluder\<rparr>) viewRay"
      by (simp add: h_def)
    from RenderPixel_calls [OF res viewRay_def this hit]
    have "cs = GetClosestHit_call viewRay #
        concat (map (light_calls R C (pScene\<lparr>DoesHit := occluder\<rparr>) viewRay h) lights)" .
    with L DoesHit_call_in_light_calls [OF front] show ?thesis
      by auto
  qed
  then have called: "\<forall>w cs.
       RenderPixel R C (pScene\<lparr>DoesHit := occluder\<rparr>) pixelIndex fov aspectRatio camera
         lights materials = Some (w, cs) \<longrightarrow>
       didHit h \<longrightarrow>
       (\<forall>L \<in> set lights. front_facing C h L \<longrightarrow>
          DoesHit_call (light_ray C h L) \<in> set cs)"
    by blast
  show ?thesis
  proof (intro conjI)
    show "map_option fst
        (RenderPixel R C (pScene\<lparr>DoesHit := occluder\<rparr>) pixelIndex fov aspectRatio camera
           lights materials) =
      map_option fst
        (RenderPixel R C (pScene\<lparr>DoesHit := occluder'\<rparr>) pixelIndex fov aspectRatio camera
           lights materials)"
      by (rule RenderPixel_shadows_disabled [OF assms])
    show "Render_sequential R C (pScene\<lparr>DoesHit := occluder\<rparr>) =
        Render_sequential R C (pScene\<lparr>DoesHit := occluder'\<rparr>)"
      by (rule Render_sequential_shadows_disabled [OF assms])
    show "Render_parallel_for R C (pScene\<lparr>DoesHit := occluder\<rparr>) res \<longleftrightarrow>
        Render_parallel_for R C (pScene\<lparr>DoesHit := occluder'\<rparr>) res"
      by (rule Render_parallel_for_shadows_disabled [OF assms])
    show "Render_async R C (pScene\<lparr>DoesHit := occluder\<rparr>) numCores res \<longleftrightarrow>
        Render_async R C (pScene\<lparr>DoesHit := occluder'\<rparr>) numCores res"
      by (rule Render_async_shadows_disabled [OF assms])
    from called show "\<forall>w cs.
       RenderPixel R C (pScene\<lparr>DoesHit := occluder\<rparr>) pixelIndex fov aspectRatio camera
         lights materials = Some (w, cs) \<longrightarrow>
       didHit (GetClosestHit pScene
         (view_ray R C (pixelIndex mod m_Width R) (pixelIndex div m_Width R)
            fov aspectRatio camera)) \<longrightarrow>
       (\<forall>L \<in> set lights.
          front_facing C
            (GetClosestHit pScene
               (view_ray R C (pixelIndex mod m_Width R) (pixelIndex div m_Width R)
                  fov aspectRatio camera)) L \<longrightarrow>
          DoesHit_call
            (light_ray C
               (GetClosestHit pScene
                  (view_ray R C (pixelIndex mod m_Width R) (pixelIndex div m_Width R)
                     fov aspectRatio camera)) L) \<in> set cs)"
      unfolding h_def viewRay_def .
  qed
qed

theorem shadows_disabled_ignore_DoesHit_witness:
  "\<not> m_ShadowsEnabled (wall_renderer\<lparr>m_ShadowsEnabled := False\<rparr>) \<and>
   map_option fst
     (RenderPixel (wall_renderer\<lparr>m_ShadowsEnabled := False\<rparr>) wall_collaborators
        (wall_scene\<lparr>DoesHit := \<lambda>ray. True\<rparr>) 3 0 1 wall_camera
        (GetLights wall_scene) (GetMaterials wall_scene)) = Some (3, 16724736)"
proof -
  have off: "\<not> m_ShadowsEnabled (wall_renderer\<lparr>m_ShadowsEnabled := False\<rparr>)"
    by simp
  from shadows_disabled_ignore_DoesHit [OF off, where C = wall_collaborators
      and pScene = wall_scene and occluder = "\<lambda>ray. True" and occluder' = "\<lambda>ray. False"
      and pixelIndex = 3 and fov = 0 and aspectRatio = 1 and camera = wall_camera
      and lights = "GetLights wall_scene" and materials = "GetMaterials wall_scene"]
  have "map_option fst
     (RenderPixel (wall_renderer\<lparr>m_ShadowsEnabled := False\<rparr>) wall_collaborators
        (wall_scene\<lparr>DoesHit := \<lambda>ray. True\<rparr>) 3 0 1 wall_camera
        (GetLights wall_scene) (GetMaterials wall_scene)) =
    map_option fst
     (RenderPixel (wall_renderer\<lparr>m_ShadowsEnabled := False\<rparr>) wall_collaborators
        (wall_scene\<lparr>DoesHit := \<lambda>ray. False\<rparr>) 3 0 1 wall_camera
        (GetLights wall_scene) (GetMaterials wall_scene))"
    by blast
  with off show ?thesis
    by (simp only: wall_RenderPixel_shadows_disabled simp_thms)
qed

end
